theory Spec2Isabelle
  imports Complex_Main "HOL-Library.Signed_Division"
begin

section \<open>Data model of \<open>src/model.cpp\<close>\<close>

text \<open>
  The file embeds \<open>Model::forward\<close>, \<open>Model::getDownscaleFactor\<close>,
  \<open>Model::afterTrain\<close> and \<open>projectionMatrix\<close> of \<open>src/model.cpp\<close>.

  Conventions of the embedding.
  \<^item> A C++ \<open>int\<close> is an \<open>int\<close>; \<open>/\<close> and \<open>%\<close> on ints are the truncating
    \<open>sdiv\<close> and \<open>smod\<close>. Division by zero and the conversion of a \<open>double\<close>
    beyond the range of \<open>int\<close> are undefined behaviour in C++ and are errors here.
    Other values are taken to stay inside the 32-bit range.
  \<^item> A \<open>float\<close> is a \<open>real\<close>: rounding, infinities and NaN are not modelled.
    The scale factors of \<open>forward\<close> are powers of two, on which float
    multiplication of the image sizes that occur is exact.
  \<^item> A tensor is a (nested) list; the empty list is the tensor with \<open>numel() = 0\<close>
    (also the default-constructed one). The parameter tensors have the shapes of the
    spec (\<open>means\<close> N x 3, \<open>camToWorld\<close> 4 x 4, ...); the geometry of \<open>forward\<close>
    is written with total list functions that agree with torch on those shapes.
    In \<open>afterTrain\<close>, where the running statistics meet the tensors of the current
    step, a shape mismatch is an error, as torch raises there.
\<close>

datatype error =
    DivisionByZero
  | IntOutOfRange
  | NegativeSize
  | UndefinedTensor
  | ShapeMismatch

type_synonym vec = "real list"
type_synonym mat = "real list list"
type_synonym image = "real list list list"

record camera =
  fx :: real
  fy :: real
  cx :: real
  cy :: real
  height :: int
  width :: int
  camToWorld :: mat

record model =
  means :: mat
  scales :: mat
  quats :: mat
  featuresDc :: mat
  featuresRest :: "real list list list"
  opacities :: mat
  backgroundColor :: vec
  numDownscales :: int
  resolutionSchedule :: int
  shDegree :: int
  shDegreeInterval :: int
  stopSplitAt :: int
  refineEvery :: int
  warmupLength :: int
  resetAlphaEvery :: int
  numCameras :: int
  lastHeight :: int
  lastWidth :: int
  xys :: mat
  xys_grad :: "mat option"
  radii :: "int list"
  xysGradNorm :: vec
  visCounts :: vec
  max2DSize :: vec

text \<open>
  \<open>xys_grad\<close> is \<open>xys.grad()\<close>: undefined (\<open>None\<close>) on the tensor \<open>forward\<close> has
  just stored, filled in by the backward pass of the training loop.
\<close>

subsection \<open>The external stages\<close>

record project_args =
  pa_means :: mat
  pa_scales :: mat
  pa_globScale :: real
  pa_quats :: mat
  pa_viewMat :: mat
  pa_projMat :: mat
  pa_fx :: real
  pa_fy :: real
  pa_cx :: real
  pa_cy :: real
  pa_height :: int
  pa_width :: int
  pa_tileBounds :: "int \<times> int \<times> int"

record projected =
  p_xys :: mat
  p_depths :: vec
  p_radii :: "int list"
  p_conics :: mat
  p_numTilesHit :: "int list"

record raster_args =
  ra_xys :: mat
  ra_depths :: vec
  ra_radii :: "int list"
  ra_conics :: mat
  ra_numTilesHit :: "int list"
  ra_colors :: mat
  ra_opacities :: mat
  ra_height :: int
  ra_width :: int
  ra_background :: vec

text \<open>
  \<open>ProjectGaussians\<close>, \<open>SphericalHarmonics\<close> and \<open>RasterizeGaussians\<close> (gsplat
  kernels) and the tile size \<open>BLOCK_X\<close>, \<open>BLOCK_Y\<close> of \<open>vendor/gsplat/config.h\<close>
  are not part of \<open>src/model.cpp\<close>: they are parameters of the model.
\<close>

record externals =
  ProjectGaussians :: "project_args \<Rightarrow> projected"
  SphericalHarmonics :: "int \<Rightarrow> mat \<Rightarrow> real list list list \<Rightarrow> mat"
  RasterizeGaussians :: "raster_args \<Rightarrow> image"
  BLOCK_X :: int
  BLOCK_Y :: int

text \<open>The calls \<open>forward\<close> makes to the external stages, in order, with their arguments.\<close>

datatype call =
    CallProject project_args
  | CallSH int mat "real list list list"
  | CallRasterize raster_args

record fwd_result =
  fr_image :: image
  fr_cam :: camera
  fr_model :: model
  fr_calls :: "call list"

section \<open>Integer helpers\<close>

definition c_div :: "int \<Rightarrow> int \<Rightarrow> error + int" where
  "c_div a b = (if b = 0 then Inl DivisionByZero else Inr (a sdiv b))"

definition c_mod :: "int \<Rightarrow> int \<Rightarrow> error + int" where
  "c_mod a b = (if b = 0 then Inl DivisionByZero else Inr (a smod b))"

section \<open>\<open>Model::getDownscaleFactor\<close> (lines 154-156)\<close>

text \<open>
  \<open>return std::pow(2, (std::max<int>)(numDownscales - step / resolutionSchedule, 0));\<close>
  The power is a \<open>double\<close>; its conversion to the \<open>int\<close> that is returned is
  defined up to \<open>2 ^ 30\<close> only.
\<close>

definition getDownscaleFactor :: "model \<Rightarrow> int \<Rightarrow> error + int" where
  "getDownscaleFactor m step =
     (case c_div step (resolutionSchedule m) of
        Inl e \<Rightarrow> Inl e
      | Inr q \<Rightarrow>
          (let e = max (numDownscales m - q) 0
           in if 30 < e then Inl IntOutOfRange else Inr (2 ^ nat e)))"

section \<open>\<open>Camera::scaleOutputResolution\<close>\<close>

text \<open>
  Modelled from the spec: \<open>Camera::scaleOutputResolution\<close> is called by
  \<open>Model::forward\<close> and is not defined in \<open>src/model.cpp\<close>. The spec does not say
  how the method computes the scaled camera; it says what the method guarantees
  (3, 4.2 step 8, 5 and 8): the scaling by a factor is exactly undone by the scaling by
  its reciprocal, so that intrinsics and dimensions are then what they were.
  \<open>restores_exactly scaleOut f cam\<close> says that the method \<open>scaleOut\<close> keeps this
  guarantee on the camera \<open>cam\<close> at the downscale factor \<open>f\<close>.
\<close>

definition restores_exactly :: "(real \<Rightarrow> camera \<Rightarrow> camera) \<Rightarrow> int \<Rightarrow> camera \<Rightarrow> bool" where
  "restores_exactly scaleOut f cam =
     (scaleOut (of_int f) (scaleOut (1 / of_int f) cam) = cam)"

section \<open>Tensor helpers\<close>

definition l2norm :: "vec \<Rightarrow> real" where
  "l2norm v = sqrt (sum_list (map (\<lambda>x. x\<^sup>2) v))"

text \<open>\<open>t / t.norm(2, {-1}, true)\<close>: every row divided by its Euclidean norm.\<close>

definition normalize_rows :: "mat \<Rightarrow> mat" where
  "normalize_rows t = map (\<lambda>row. map (\<lambda>x. x / l2norm row) row) t"

definition matmul :: "mat \<Rightarrow> mat \<Rightarrow> mat" where
  "matmul a b = map (\<lambda>row. map (\<lambda>col. sum_list (map2 (*) row col)) (transpose b)) a"

definition mat_neg :: "mat \<Rightarrow> mat" where
  "mat_neg a = map (map uminus) a"

text \<open>\<open>t.index({Slice(r0, r1), Slice(c0, c1)})\<close>\<close>

definition slice2 :: "nat \<Rightarrow> nat \<Rightarrow> nat \<Rightarrow> nat \<Rightarrow> mat \<Rightarrow> mat" where
  "slice2 r0 r1 c0 c1 t = map (\<lambda>row. take (c1 - c0) (drop c0 row)) (take (r1 - r0) (drop r0 t))"

definition sigmoid :: "real \<Rightarrow> real" where
  "sigmoid x = 1 / (1 + exp (- x))"

section \<open>\<open>projectionMatrix\<close> (lines 22-34)\<close>

definition proj_t :: "real \<Rightarrow> real \<Rightarrow> real" where
  "proj_t zNear fovY = zNear * tan (0.5 * fovY)"

definition proj_r :: "real \<Rightarrow> real \<Rightarrow> real" where
  "proj_r zNear fovX = zNear * tan (0.5 * fovX)"

definition projectionMatrix :: "real \<Rightarrow> real \<Rightarrow> real \<Rightarrow> real \<Rightarrow> mat" where
  "projectionMatrix zNear zFar fovX fovY =
     (let t = proj_t zNear fovY;
          b = - t;
          r = proj_r zNear fovX;
          l = - r
      in [[2 * zNear / (r - l), 0, (r + l) / (r - l), 0],
          [0, 2 * zNear / (t - b), (t + b) / (t - b), 0],
          [0, 0, (zFar + zNear) / (zFar - zNear), - 1 * zFar * zNear / (zFar - zNear)],
          [0, 0, 1, 0]])"

text \<open>The three divisors of the matrix entries.\<close>

definition projectionDivisors :: "real \<Rightarrow> real \<Rightarrow> real \<Rightarrow> real \<Rightarrow> real \<times> real \<times> real" where
  "projectionDivisors zNear zFar fovX fovY =
     (let t = proj_t zNear fovY;
          b = - t;
          r = proj_r zNear fovX;
          l = - r
      in (r - l, t - b, zFar - zNear))"

section \<open>\<open>Model::forward\<close> (lines 46-134)\<close>

text \<open>Lines 52-67: the world-to-camera matrix.\<close>

definition cam_T :: "camera \<Rightarrow> mat" where
  "cam_T cam = slice2 0 3 3 4 (camToWorld cam)"

definition cam_R :: "camera \<Rightarrow> mat" where
  "cam_R cam = matmul (slice2 0 3 0 3 (camToWorld cam)) [[1, 0, 0], [0, - 1, 0], [0, 0, - 1]]"

definition viewMatrix :: "camera \<Rightarrow> mat" where
  "viewMatrix cam =
     (let Rinv = transpose (cam_R cam);
          Tinv = matmul (mat_neg Rinv) (cam_T cam)
      in map2 (@) Rinv Tinv @ [[0, 0, 0, 1]])"

text \<open>Lines 69-70: the fields of view.\<close>

definition fovX :: "camera \<Rightarrow> real" where
  "fovX cam = 2 * arctan (of_int (width cam) / (2 * fx cam))"

definition fovY :: "camera \<Rightarrow> real" where
  "fovY cam = 2 * arctan (of_int (height cam) / (2 * fy cam))"

text \<open>Line 72: the projection matrix, with the clip planes written in the call.\<close>

definition forward_zNear :: real where
  "forward_zNear = 0.001"

definition forward_zFar :: real where
  "forward_zFar = 1000"

definition forward_projMat :: "camera \<Rightarrow> mat" where
  "forward_projMat cam = projectionMatrix forward_zNear forward_zFar (fovX cam) (fovY cam)"

text \<open>Lines 74-76: the tile bounds.\<close>

definition tileBounds :: "externals \<Rightarrow> camera \<Rightarrow> error + int \<times> int \<times> int" where
  "tileBounds ext cam =
     (case c_div (width cam + BLOCK_X ext - 1) (BLOCK_X ext) of
        Inl e \<Rightarrow> Inl e
      | Inr tx \<Rightarrow>
          (case c_div (height cam + BLOCK_Y ext - 1) (BLOCK_Y ext) of
             Inl e \<Rightarrow> Inl e
           | Inr ty \<Rightarrow> Inr (tx, ty, 1)))"

text \<open>Line 78: \<open>cat({featuresDc[:, None, :], featuresRest}, 1)\<close>.\<close>

definition forward_colors :: "model \<Rightarrow> real list list list" where
  "forward_colors m = map2 (#) (featuresDc m) (featuresRest m)"

text \<open>Lines 80-92: the arguments of the projection stage.\<close>

definition forward_project_args :: "model \<Rightarrow> camera \<Rightarrow> int \<times> int \<times> int \<Rightarrow> project_args" where
  "forward_project_args m cam tb =
     \<lparr> pa_means = means m,
       pa_scales = map (map exp) (scales m),
       pa_globScale = 1,
       pa_quats = normalize_rows (quats m),
       pa_viewMat = viewMatrix cam,
       pa_projMat = matmul (forward_projMat cam) (viewMatrix cam),
       pa_fx = fx cam,
       pa_fy = fy cam,
       pa_cx = cx cam,
       pa_cy = cy cam,
       pa_height = height cam,
       pa_width = width cam,
       pa_tileBounds = tb \<rparr>"

text \<open>
  Lines 109-110: \<open>viewDirs = means.detach() - T.transpose(0, 1)\<close>, the row
  \<open>T\<^sup>T\<close> broadcast over the rows of \<open>means\<close>, then each row divided by its norm.
\<close>

definition forward_viewDirs :: "model \<Rightarrow> camera \<Rightarrow> mat" where
  "forward_viewDirs m cam =
     normalize_rows (map (\<lambda>mu. map2 (-) mu (concat (transpose (cam_T cam)))) (means m))"

text \<open>Line 111: \<open>(std::min<int>)(step / shDegreeInterval, shDegree)\<close>.\<close>

definition degreesToUse :: "model \<Rightarrow> int \<Rightarrow> error + int" where
  "degreesToUse m step =
     (case c_div step (shDegreeInterval m) of
        Inl e \<Rightarrow> Inl e
      | Inr q \<Rightarrow> Inr (min q (shDegree m)))"

text \<open>Line 103: \<open>backgroundColor.repeat({cam.height, cam.width, 1})\<close>.\<close>

definition background_image :: "model \<Rightarrow> camera \<Rightarrow> error + image" where
  "background_image m cam =
     (if height cam < 0 \<or> width cam < 0 then Inl NegativeSize
      else Inr (replicate (nat (height cam)) (replicate (nat (width cam)) (backgroundColor m))))"

text \<open>Lines 116-126: the arguments of the rasterization stage.\<close>

definition forward_raster_args :: "model \<Rightarrow> camera \<Rightarrow> projected \<Rightarrow> mat \<Rightarrow> raster_args" where
  "forward_raster_args m cam p rgbs =
     \<lparr> ra_xys = p_xys p,
       ra_depths = p_depths p,
       ra_radii = p_radii p,
       ra_conics = p_conics p,
       ra_numTilesHit = p_numTilesHit p,
       ra_colors = rgbs,
       ra_opacities = map (map sigmoid) (opacities m),
       ra_height = height cam,
       ra_width = width cam,
       ra_background = backgroundColor m \<rparr>"

text \<open>
  \<open>forward\<close> itself. The camera's method \<open>scaleOutputResolution\<close> is not part of
  \<open>src/model.cpp\<close>, so \<open>forward\<close> takes it as the parameter \<open>scaleOut\<close>: what is
  proved of \<open>forward scaleOut\<close> holds whatever the method does, and what depends on
  the method says so in a hypothesis on \<open>scaleOut\<close>.
  \<open>cam1\<close> is the camera between the two calls of the method, \<open>cam2\<close> the camera
  after the second.
\<close>

definition forward ::
  "(real \<Rightarrow> camera \<Rightarrow> camera) \<Rightarrow> externals \<Rightarrow> model \<Rightarrow> camera \<Rightarrow> int \<Rightarrow> error + fwd_result" where
  "forward scaleOut ext m cam step =
     (case getDownscaleFactor m step of
        Inl e \<Rightarrow> Inl e
      | Inr f \<Rightarrow>
     (let scaleFactor = 1 / of_int f;
          cam1 = scaleOut scaleFactor cam;
          m1 = m\<lparr> lastHeight := height cam1, lastWidth := width cam1 \<rparr>
      in case tileBounds ext cam1 of
        Inl e \<Rightarrow> Inl e
      | Inr tb \<Rightarrow>
     (let pargs = forward_project_args m1 cam1 tb;
          p = ProjectGaussians ext pargs;
          m2 = m1\<lparr> xys := p_xys p, xys_grad := None, radii := p_radii p \<rparr>
      in if sum_list (p_radii p) = 0 then
           (let cam2 = scaleOut (1 / scaleFactor) cam1
            in case background_image m2 cam2 of
                 Inl e \<Rightarrow> Inl e
               | Inr img \<Rightarrow>
                   Inr \<lparr> fr_image = img, fr_cam = cam2, fr_model = m2,
                         fr_calls = [CallProject pargs] \<rparr>)
         else
           (let viewDirs = forward_viewDirs m2 cam1
            in case degreesToUse m2 step of
                 Inl e \<Rightarrow> Inl e
               | Inr deg \<Rightarrow>
                   (let colors = forward_colors m2;
                        rgbs = map (map (\<lambda>c. max (c + 0.5) 0))
                                 (SphericalHarmonics ext deg viewDirs colors);
                        rargs = forward_raster_args m2 cam1 p rgbs;
                        rgb = map (map (map (\<lambda>c. min c 1))) (RasterizeGaussians ext rargs);
                        cam2 = scaleOut (1 / scaleFactor) cam1
                    in Inr \<lparr> fr_image = rgb, fr_cam = cam2, fr_model = m2,
                             fr_calls = [CallProject pargs,
                                         CallSH deg viewDirs colors,
                                         CallRasterize rargs] \<rparr>)))))"

section \<open>\<open>Model::afterTrain\<close> (lines 158-194)\<close>

definition bind_err :: "error + 'a \<Rightarrow> ('a \<Rightarrow> error + 'b) \<Rightarrow> error + 'b" where
  "bind_err r f = (case r of Inl e \<Rightarrow> Inl e | Inr x \<Rightarrow> f x)"

text \<open>
  \<open>t.index({mask})\<close> with a boolean mask: the entries of \<open>t\<close> where the mask is
  true, in order; torch raises when the mask has another shape than \<open>t\<close>.
\<close>

definition masked_select :: "'a list \<Rightarrow> bool list \<Rightarrow> 'a list" where
  "masked_select t msk = map fst (filter snd (zip t msk))"

definition index_mask :: "'a list \<Rightarrow> bool list \<Rightarrow> error + 'a list" where
  "index_mask t msk =
     (if length msk \<noteq> length t then Inl ShapeMismatch
      else Inr (masked_select t msk))"

text \<open>
  \<open>t.index_put_({mask}, values)\<close>: the entries of \<open>t\<close> where the mask is true are
  replaced by the values, in order. In \<open>afterTrain\<close> the values always come from a
  selection by the same mask, so they are as many as the mask has true entries.
\<close>

fun scatter :: "'a list \<Rightarrow> bool list \<Rightarrow> 'a list \<Rightarrow> 'a list" where
  "scatter (x # t) (True # msk) (v # vals) = v # scatter t msk vals"
| "scatter (x # t) (False # msk) vals = x # scatter t msk vals"
| "scatter t msk vals = t"

definition index_put_mask :: "'a list \<Rightarrow> bool list \<Rightarrow> 'a list \<Rightarrow> error + 'a list" where
  "index_put_mask t msk vals =
     (if length msk \<noteq> length t \<or> length vals \<noteq> length (filter id msk)
      then Inl ShapeMismatch
      else Inr (scatter t msk vals))"

text \<open>
  Lines 162-180, the body of \<open>if (step < stopSplitAt)\<close> up to the debug print: the
  update of the running statistics.
\<close>

definition update_gradNorm :: "model \<Rightarrow> bool list \<Rightarrow> vec \<Rightarrow> error + model" where
  "update_gradNorm m visibleMask grads =
     (if xysGradNorm m = [] then
        Inr (m\<lparr> xysGradNorm := grads, visCounts := map (\<lambda>_. 1) grads \<rparr>)
      else
        bind_err (index_mask (visCounts m) visibleMask) (\<lambda>vc.
        bind_err (index_put_mask (visCounts m) visibleMask (map (\<lambda>c. c + 1) vc)) (\<lambda>visCounts'.
        bind_err (index_mask grads visibleMask) (\<lambda>gsel.
        bind_err (index_mask (xysGradNorm m) visibleMask) (\<lambda>xsel.
        bind_err (index_put_mask (xysGradNorm m) visibleMask (map2 (+) gsel xsel)) (\<lambda>xysGradNorm'.
        Inr (m\<lparr> visCounts := visCounts', xysGradNorm := xysGradNorm' \<rparr>)))))))"

definition update_max2DSize :: "model \<Rightarrow> bool list \<Rightarrow> error + model" where
  "update_max2DSize m visibleMask =
     (let m1 = (if max2DSize m = [] then m\<lparr> max2DSize := map (\<lambda>_. 0) (radii m) \<rparr> else m)
      in bind_err (index_mask (radii m1) visibleMask) (\<lambda>newRadii.
         bind_err (index_mask (max2DSize m1) visibleMask) (\<lambda>cur.
         bind_err (index_put_mask (max2DSize m1) visibleMask
                     (map2 max cur
                        (map (\<lambda>r. of_int r / of_int (max (lastHeight m1) (lastWidth m1))) newRadii)))
           (\<lambda>max2DSize'. Inr (m1\<lparr> max2DSize := max2DSize' \<rparr>)))))"

definition afterTrain_stats :: "model \<Rightarrow> error + model" where
  "afterTrain_stats m =
     (let visibleMask = map (\<lambda>r. 0 < r) (radii m)
      in case xys_grad m of
           None \<Rightarrow> Inl UndefinedTensor
         | Some g \<Rightarrow>
             bind_err (update_gradNorm m visibleMask (map l2norm g)) (\<lambda>m1.
               update_max2DSize m1 visibleMask))"

text \<open>
  How a call of \<open>afterTrain\<close> ends: it returns, with the model it leaves; or the process
  exits with a status, after printing a tensor; or an error (a torch exception, or
  undefined behaviour) ends it.
\<close>

datatype outcome =
    Returned model
  | Exited int vec
  | Failed error

definition afterTrain :: "model \<Rightarrow> int \<Rightarrow> outcome" where
  "afterTrain m step =
     (if step < stopSplitAt m then
        (case afterTrain_stats m of
           Inl e \<Rightarrow> Failed e
         | Inr m' \<Rightarrow> Exited 1 (max2DSize m'))
      else
        (case c_mod step (refineEvery m) of
           Inl e \<Rightarrow> Failed e
         | Inr r \<Rightarrow>
             if r = 0 \<and> warmupLength m < step then
               (let resetInterval = resetAlphaEvery m * refineEvery m
                in if step < stopSplitAt m then
                     (case c_mod step resetInterval of
                        Inl e \<Rightarrow> Failed e
                      | Inr r' \<Rightarrow> Returned m)
                   else Returned m)
             else Returned m))"

subsection \<open>The statistics over several steps\<close>

text \<open>
  What one training step leaves in the model for \<open>afterTrain\<close> to read: \<open>forward\<close>
  stores \<open>radii\<close>, \<open>lastHeight\<close> and \<open>lastWidth\<close>, the backward pass the gradient of
  \<open>xys\<close>.
\<close>

record observation =
  o_radii :: "int list"
  o_grad :: mat
  o_lastHeight :: int
  o_lastWidth :: int

definition observe :: "model \<Rightarrow> observation \<Rightarrow> model" where
  "observe m ob =
     m\<lparr> radii := o_radii ob, xys_grad := Some (o_grad ob),
        lastHeight := o_lastHeight ob, lastWidth := o_lastWidth ob \<rparr>"

text \<open>
  The statistics update of lines 162-180 applied step after step. (Line 183 ends the
  process after the first of these updates; the updates are followed here as if it
  did not, which is what the running statistics are written for.)
\<close>

fun stats_run :: "model \<Rightarrow> observation list \<Rightarrow> error + model" where
  "stats_run m [] = Inr m"
| "stats_run m (ob # obs) = bind_err (afterTrain_stats (observe m ob)) (\<lambda>m'. stats_run m' obs)"


text \<open>
  The shapes under which lines 162-180 raise nothing: the gradient of \<open>xys\<close> is
  there, and the running statistics are still empty or as long as \<open>radii\<close>.
\<close>

definition stats_shapes_ok :: "model \<Rightarrow> bool" where
  "stats_shapes_ok m =
     (case xys_grad m of
        None \<Rightarrow> False
      | Some g \<Rightarrow>
          (xysGradNorm m = [] \<or>
             (length (xysGradNorm m) = length (radii m) \<and>
              length (visCounts m) = length (radii m) \<and>
              length g = length (radii m)))
          \<and> (max2DSize m = [] \<or> length (max2DSize m) = length (radii m)))"

section \<open>Reading the results\<close>

text \<open>
  The camera position: the translation column of the camera-to-world pose. \<open>forward\<close>
  reads it as \<open>T\<close> on line 53.
\<close>

definition cameraPosition :: "camera \<Rightarrow> vec" where
  "cameraPosition cam = map (\<lambda>row. row ! 3) (take 3 (camToWorld cam))"

text \<open>The view directions \<open>forward\<close> has passed to the spherical-harmonics stage.\<close>

definition sh_viewDirs :: "error + fwd_result \<Rightarrow> mat list" where
  "sh_viewDirs r =
     (case r of
        Inl e \<Rightarrow> []
      | Inr res \<Rightarrow> concat (map (\<lambda>c. case c of CallSH deg v cs \<Rightarrow> [v] | _ \<Rightarrow> []) (fr_calls res)))"

text \<open>
  The gradient magnitude of primitive \<open>i\<close> in a step (line 164), and whether the
  primitive is visible in it (line 162).
\<close>

definition grad_norm :: "observation \<Rightarrow> nat \<Rightarrow> real" where
  "grad_norm ob i = l2norm (o_grad ob ! i)"

definition visible_in :: "observation \<Rightarrow> nat \<Rightarrow> bool" where
  "visible_in ob i = (0 < o_radii ob ! i)"

text \<open>
  The arithmetic mean of the gradient magnitudes of primitive \<open>i\<close> over exactly the
  steps in which it was visible, in the words of the spec (testable properties).
\<close>

definition mean_over_visible :: "observation list \<Rightarrow> nat \<Rightarrow> real" where
  "mean_over_visible obs i =
     sum_list (map (\<lambda>ob. grad_norm ob i) (filter (\<lambda>ob. visible_in ob i) obs))
       / of_nat (length (filter (\<lambda>ob. visible_in ob i) obs))"

text \<open>The running mean the statistics hold: \<open>xysGradNorm[i] / visCounts[i]\<close>.\<close>

definition running_mean :: "model \<Rightarrow> nat \<Rightarrow> real" where
  "running_mean m i = xysGradNorm m ! i / visCounts m ! i"

text \<open>A step over \<open>n\<close> primitives.\<close>

definition obs_shape :: "nat \<Rightarrow> observation \<Rightarrow> bool" where
  "obs_shape n ob = (length (o_radii ob) = n \<and> length (o_grad ob) = n)"

text \<open>
  What a call of \<open>forward\<close> has left: the camera's size, the image and its size, the
  calls made, and the size a call to the projection stage was given.
\<close>

definition size_after :: "error + fwd_result \<Rightarrow> (int \<times> int) option" where
  "size_after r =
     (case r of Inl e \<Rightarrow> None | Inr res \<Rightarrow> Some (height (fr_cam res), width (fr_cam res)))"

definition image_of :: "error + fwd_result \<Rightarrow> image option" where
  "image_of r = (case r of Inl e \<Rightarrow> None | Inr res \<Rightarrow> Some (fr_image res))"

definition calls_of :: "error + fwd_result \<Rightarrow> call list" where
  "calls_of r = (case r of Inl e \<Rightarrow> [] | Inr res \<Rightarrow> fr_calls res)"

definition image_size :: "error + fwd_result \<Rightarrow> (nat \<times> nat) option" where
  "image_size r =
     (case r of
        Inl e \<Rightarrow> None
      | Inr res \<Rightarrow>
          Some (length (fr_image res), (case fr_image res of [] \<Rightarrow> 0 | row # _ \<Rightarrow> length row)))"

definition projected_size :: "call \<Rightarrow> (int \<times> int) option" where
  "projected_size c =
     (case c of CallProject a \<Rightarrow> Some (pa_height a, pa_width a) | _ \<Rightarrow> None)"

section \<open>Example inputs\<close>

text \<open>
  One primitive at \<open>(1, 0, 0)\<close>, a camera of height 4 and width 6 at the origin with
  the identity pose, one downscale level; an external projection stage that reports
  the radius \<open>r\<close>.
\<close>

definition ex_model :: model where
  "ex_model =
     \<lparr> means = [[1, 0, 0]], scales = [[0, 0, 0]], quats = [[1, 0, 0, 0]],
       featuresDc = [[0, 0, 0]], featuresRest = [[]], opacities = [[0]],
       backgroundColor = [1, 0, 0],
       numDownscales = 1, resolutionSchedule = 250, shDegree = 3, shDegreeInterval = 1000,
       stopSplitAt = 15000, refineEvery = 100, warmupLength = 500, resetAlphaEvery = 30,
       numCameras = 2, lastHeight = 0, lastWidth = 0,
       xys = [], xys_grad = None, radii = [],
       xysGradNorm = [], visCounts = [], max2DSize = [] \<rparr>"

definition ex_camera :: camera where
  "ex_camera =
     \<lparr> fx = 4, fy = 4, cx = 3, cy = 2, height = 4, width = 6,
       camToWorld = [[1, 0, 0, 0], [0, 1, 0, 0], [0, 0, 1, 0], [0, 0, 0, 1]] \<rparr>"

definition ex_stages :: "int \<Rightarrow> externals" where
  "ex_stages r =
     \<lparr> ProjectGaussians = (\<lambda>a. \<lparr> p_xys = [[1, 1]], p_depths = [1], p_radii = [r],
                                  p_conics = [[1, 0, 1]], p_numTilesHit = [1] \<rparr>),
       SphericalHarmonics = (\<lambda>deg dirs coeffs. [[0, 0, 0]]),
       RasterizeGaussians = (\<lambda>a. [[[2, 1 / 2, 0]]]),
       BLOCK_X = 16, BLOCK_Y = 16 \<rparr>"

text \<open>
  An example of the camera's method: it multiplies the intrinsics and the sizes by the
  factor. The sizes of the example camera are even and the downscale factors of the
  example model are 1 and 2, so every product here is a whole number.
\<close>

definition ex_scaleOut :: "real \<Rightarrow> camera \<Rightarrow> camera" where
  "ex_scaleOut scaleFactor cam =
     cam\<lparr> fx := fx cam * scaleFactor,
          fy := fy cam * scaleFactor,
          cx := cx cam * scaleFactor,
          cy := cy cam * scaleFactor,
          height := \<lfloor>of_int (height cam) * scaleFactor\<rfloor>,
          width := \<lfloor>of_int (width cam) * scaleFactor\<rfloor> \<rparr>"

text \<open>
  What a step leaves for \<open>afterTrain\<close>: one primitive of projected radius \<open>r\<close> in a
  4 x 5 render, with the screen-space gradient \<open>(g, 0)\<close>.
\<close>

definition ex_obs :: "int \<Rightarrow> real \<Rightarrow> observation" where
  "ex_obs r g = \<lparr> o_radii = [r], o_grad = [[g, 0]], o_lastHeight = 4, o_lastWidth = 5 \<rparr>"

lemmas ex_simps =
  ex_model_def ex_camera_def ex_stages_def ex_scaleOut_def c_div_def c_mod_def
  signed_divide_int_def signed_modulo_int_def

section \<open>Facts about \<open>forward\<close>\<close>

lemma sdiv_nonneg_pos: "0 \<le> (a::int) \<Longrightarrow> 0 < b \<Longrightarrow> a sdiv b = a div b"
  by (simp add: signed_divide_int_def sgn_if)

lemma c_div_pos: "0 \<le> a \<Longrightarrow> 0 < b \<Longrightarrow> c_div a b = Inr (a div b)"
  by (simp add: c_div_def sdiv_nonneg_pos)

lemma degreesToUse_model_frame:
  "degreesToUse (m\<lparr> lastHeight := h, lastWidth := w, xys := x, xys_grad := g, radii := r \<rparr>) s
     = degreesToUse m s"
  by (simp add: degreesToUse_def split: sum.splits)

text \<open>What a call of \<open>forward\<close> that returns has done, path by path.\<close>

lemma forward_Inr:
  assumes "forward scaleOut ext m cam s = Inr res"
  shows "\<exists>f tb. getDownscaleFactor m s = Inr f \<and>
           tileBounds ext (scaleOut (1 / of_int f) cam) = Inr tb \<and>
           (let cam1 = scaleOut (1 / of_int f) cam;
                m1 = m\<lparr> lastHeight := height cam1, lastWidth := width cam1 \<rparr>;
                pargs = forward_project_args m1 cam1 tb;
                p = ProjectGaussians ext pargs;
                m2 = m1\<lparr> xys := p_xys p, xys_grad := None, radii := p_radii p \<rparr>;
                cam2 = scaleOut (1 / (1 / of_int f)) cam1
            in fr_cam res = cam2 \<and> fr_model res = m2 \<and>
               (if sum_list (p_radii p) = 0
                then background_image m2 cam2 = Inr (fr_image res) \<and>
                     fr_calls res = [CallProject pargs]
                else \<exists>deg rargs. degreesToUse m s = Inr deg \<and>
                     rargs = forward_raster_args m2 cam1 p
                               (map (map (\<lambda>c. max (c + 0.5) 0))
                                  (SphericalHarmonics ext deg (forward_viewDirs m2 cam1) (forward_colors m2))) \<and>
                     fr_image res = map (map (map (\<lambda>c. min c 1))) (RasterizeGaussians ext rargs) \<and>
                     fr_calls res = [CallProject pargs,
                                     CallSH deg (forward_viewDirs m2 cam1) (forward_colors m2),
                                     CallRasterize rargs]))"
proof -
  obtain f where f: "getDownscaleFactor m s = Inr f"
    using assms by (cases "getDownscaleFactor m s") (simp_all add: forward_def)
  obtain tb where tb: "tileBounds ext (scaleOut (1 / of_int f) cam) = Inr tb"
    using assms f
    by (cases "tileBounds ext (scaleOut (1 / of_int f) cam)") (simp_all add: forward_def Let_def)
  show ?thesis
    apply (rule exI [of _ f])
    apply (rule exI [of _ tb])
    using assms f tb
    apply (simp add: forward_def Let_def degreesToUse_model_frame split: sum.splits if_splits)
    apply (auto simp: degreesToUse_model_frame)
    done
qed

lemma forward_calls_cases:
  assumes "forward scaleOut ext m cam s = Inr res"
  shows "(\<exists>pargs. fr_calls res = [CallProject pargs]) \<or>
         (\<exists>pargs deg v c rargs.
             fr_calls res = [CallProject pargs, CallSH deg v c, CallRasterize rargs] \<and>
             degreesToUse m s = Inr deg)"
  using assms
  by (auto simp: forward_def Let_def degreesToUse_model_frame split: sum.splits if_splits)

section \<open>The spherical-harmonics degree\<close>

text \<open>
  Claim C6. With a positive \<open>shDegreeInterval\<close>, at every step \<open>s \<ge> 0\<close> the degree
  computed on line 111, and passed by \<open>forward\<close> to the spherical-harmonics stage,
  is \<open>min (floor (s / shDegreeInterval)) shDegree\<close>; it does not decrease when the
  step grows, and it is never above \<open>shDegree\<close>.
\<close>

theorem sh_degree_schedule:
  assumes "0 < shDegreeInterval m" and "0 \<le> s"
  shows "degreesToUse m s
           = Inr (min \<lfloor>real_of_int s / real_of_int (shDegreeInterval m)\<rfloor> (shDegree m))
       \<and> (\<forall>res deg v c.
             forward scaleOut ext m cam s = Inr res \<and> CallSH deg v c \<in> set (fr_calls res)
             \<longrightarrow> deg = min \<lfloor>real_of_int s / real_of_int (shDegreeInterval m)\<rfloor> (shDegree m))
       \<and> (\<forall>s' d d'. s \<le> s' \<and> degreesToUse m s = Inr d \<and> degreesToUse m s' = Inr d'
             \<longrightarrow> d \<le> d')
       \<and> (\<forall>d. degreesToUse m s = Inr d \<longrightarrow> d \<le> shDegree m)"
proof -
  let ?k = "shDegreeInterval m"
  have fl: "\<lfloor>real_of_int s / real_of_int ?k\<rfloor> = s div ?k"
    by (simp add: floor_divide_of_int_eq)
  have val: "degreesToUse m s = Inr (min (s div ?k) (shDegree m))"
    using assms by (simp add: degreesToUse_def c_div_pos)
  have fwd: "deg = min (s div ?k) (shDegree m)"
    if run: "forward scaleOut ext m cam s = Inr res" and mem: "CallSH deg v c \<in> set (fr_calls res)"
    for res deg v c
  proof -
    from forward_calls_cases [OF run] mem
    have "degreesToUse m s = Inr deg" by auto
    with val show ?thesis by simp
  qed
  have mono: "d \<le> d'"
    if le: "s \<le> s'" and d: "degreesToUse m s = Inr d" and d': "degreesToUse m s' = Inr d'"
    for s' d d'
  proof -
    have "0 \<le> s'" using le assms(2) by simp
    then have "degreesToUse m s' = Inr (min (s' div ?k) (shDegree m))"
      using assms(1) by (simp add: degreesToUse_def c_div_pos)
    with d' have 1: "d' = min (s' div ?k) (shDegree m)" by simp
    from d val have 2: "d = min (s div ?k) (shDegree m)" by simp
    have "s div ?k \<le> s' div ?k"
      using le assms(1) by (rule zdiv_mono1)
    with 1 2 show ?thesis by simp
  qed
  have bound: "d \<le> shDegree m" if "degreesToUse m s = Inr d" for d
    using that val by simp
  show ?thesis
    unfolding fl using val fwd mono bound by blast
qed

text \<open>At step 2500 of the example the degree is 2, and it is the degree \<open>forward\<close> passes on.\<close>

theorem sh_degree_schedule_witness:
  "degreesToUse ex_model 2500 = Inr 2
   \<and> (\<exists>res v c. forward ex_scaleOut (ex_stages 3) ex_model ex_camera 2500 = Inr res
         \<and> CallSH 2 v c \<in> set (fr_calls res))
   \<and> degreesToUse ex_model 3500 = Inr 3
   \<and> degreesToUse ex_model 9000 = Inr 3"
proof -
  have h1: "0 < shDegreeInterval ex_model" and h2: "(0::int) \<le> 2500"
    by (simp_all add: ex_model_def)
  from sh_degree_schedule [OF h1 h2]
  have "degreesToUse ex_model 2500 = Inr 2"
    by (simp add: ex_model_def)
  moreover have "\<exists>res v c. forward ex_scaleOut (ex_stages 3) ex_model ex_camera 2500 = Inr res
         \<and> CallSH 2 v c \<in> set (fr_calls res)"
    by (simp add: forward_def getDownscaleFactor_def Let_def tileBounds_def
        ex_scaleOut_def degreesToUse_def ex_simps)
  moreover have "degreesToUse ex_model 3500 = Inr 3" "degreesToUse ex_model 9000 = Inr 3"
    by (simp_all add: degreesToUse_def ex_simps)
  ultimately show ?thesis by simp
qed

section \<open>The resolution schedule\<close>

text \<open>
  Claim C7. \<open>getDownscaleFactor s\<close> is \<open>2 ^ max (numDownscales - s / resolutionSchedule) 0\<close>,
  with the integer division of C++ (\<open>sdiv\<close>; the floor quotient for \<open>s \<ge> 0\<close> and a
  positive schedule, by \<open>sdiv_nonneg_pos\<close>), provided \<open>resolutionSchedule\<close> is not
  zero and the power fits an \<open>int\<close>. \<open>forward\<close> scales the camera by the reciprocal
  of this factor first: the projection stage gets the intrinsics, sizes and tile bounds
  of the scaled camera, and so does the rasterization stage.
\<close>

theorem downscale_factor_schedule:
  assumes "resolutionSchedule m \<noteq> 0"
    and "numDownscales m - s sdiv resolutionSchedule m \<le> 30"
  shows "getDownscaleFactor m s
           = Inr (2 ^ nat (max (numDownscales m - s sdiv resolutionSchedule m) 0))
       \<and> (\<forall>res. forward scaleOut ext m cam s = Inr res \<longrightarrow>
            (let cam1 = scaleOut (1 / of_int (2 ^ nat (max (numDownscales m - s sdiv resolutionSchedule m) 0))) cam
             in (\<exists>tb rest. tileBounds ext cam1 = Inr tb \<and>
                   fr_calls res =
                     CallProject (forward_project_args
                        (m\<lparr> lastHeight := height cam1, lastWidth := width cam1 \<rparr>) cam1 tb) # rest)
                \<and> (\<forall>rargs. CallRasterize rargs \<in> set (fr_calls res) \<longrightarrow>
                      ra_height rargs = height cam1 \<and> ra_width rargs = width cam1)))"
proof -
  let ?f = "2 ^ nat (max (numDownscales m - s sdiv resolutionSchedule m) 0) :: int"
  have val: "getDownscaleFactor m s = Inr ?f"
    using assms by (simp add: getDownscaleFactor_def c_div_def Let_def)
  have fwd: "(let cam1 = scaleOut (1 / of_int ?f) cam
             in (\<exists>tb rest. tileBounds ext cam1 = Inr tb \<and>
                   fr_calls res =
                     CallProject (forward_project_args
                        (m\<lparr> lastHeight := height cam1, lastWidth := width cam1 \<rparr>) cam1 tb) # rest)
                \<and> (\<forall>rargs. CallRasterize rargs \<in> set (fr_calls res) \<longrightarrow>
                      ra_height rargs = height cam1 \<and> ra_width rargs = width cam1))"
    if run: "forward scaleOut ext m cam s = Inr res" for res
  proof -
    from forward_Inr [OF run] obtain f tb where
      f: "getDownscaleFactor m s = Inr f" and
      tb: "tileBounds ext (scaleOut (1 / of_int f) cam) = Inr tb" and
      body: "(let cam1 = scaleOut (1 / of_int f) cam;
                m1 = m\<lparr> lastHeight := height cam1, lastWidth := width cam1 \<rparr>;
                pargs = forward_project_args m1 cam1 tb;
                p = ProjectGaussians ext pargs;
                m2 = m1\<lparr> xys := p_xys p, xys_grad := None, radii := p_radii p \<rparr>;
                cam2 = scaleOut (1 / (1 / of_int f)) cam1
            in fr_cam res = cam2 \<and> fr_model res = m2 \<and>
               (if sum_list (p_radii p) = 0
                then background_image m2 cam2 = Inr (fr_image res) \<and>
                     fr_calls res = [CallProject pargs]
                else \<exists>deg rargs. degreesToUse m s = Inr deg \<and>
                     rargs = forward_raster_args m2 cam1 p
                               (map (map (\<lambda>c. max (c + 0.5) 0))
                                  (SphericalHarmonics ext deg (forward_viewDirs m2 cam1) (forward_colors m2))) \<and>
                     fr_image res = map (map (map (\<lambda>c. min c 1))) (RasterizeGaussians ext rargs) \<and>
                     fr_calls res = [CallProject pargs,
                                     CallSH deg (forward_viewDirs m2 cam1) (forward_colors m2),
                                     CallRasterize rargs]))"
      by blast
    from f val have ff: "f = ?f" by simp
    show ?thesis
    proof (cases "sum_list (p_radii (ProjectGaussians ext (forward_project_args
               (m\<lparr> lastHeight := height (scaleOut (1 / of_int f) cam),
                    lastWidth := width (scaleOut (1 / of_int f) cam) \<rparr>)
               (scaleOut (1 / of_int f) cam) tb))) = 0")
      case True
      with body tb show ?thesis
        unfolding ff Let_def by simp
    next
      case False
      with body tb show ?thesis
        unfolding ff Let_def by (auto simp: forward_raster_args_def)
    qed
  qed
  show ?thesis
    using val fwd by blast
qed

text \<open>The example has one downscale level and a schedule of 250 steps.\<close>

theorem downscale_factor_schedule_witness:
  "getDownscaleFactor ex_model 0 = Inr 2
   \<and> getDownscaleFactor ex_model 249 = Inr 2
   \<and> getDownscaleFactor ex_model 250 = Inr 1
   \<and> (\<exists>res pargs rargs.
         forward ex_scaleOut (ex_stages 3) ex_model ex_camera 0 = Inr res
         \<and> fr_calls res ! 0 = CallProject pargs
         \<and> pa_height pargs = 2 \<and> pa_width pargs = 3 \<and> pa_fx pargs = 2 \<and> pa_cx pargs = 3 / 2
         \<and> fr_calls res ! 2 = CallRasterize rargs
         \<and> ra_height rargs = 2 \<and> ra_width rargs = 3)"
proof -
  have h1: "resolutionSchedule ex_model \<noteq> 0"
    and h2: "numDownscales ex_model - 0 sdiv resolutionSchedule ex_model \<le> 30"
    by (simp_all add: ex_model_def)
  from downscale_factor_schedule [OF h1 h2]
  have "getDownscaleFactor ex_model 0 = Inr 2"
    by (simp add: ex_model_def)
  moreover have "getDownscaleFactor ex_model 249 = Inr 2" "getDownscaleFactor ex_model 250 = Inr 1"
    by (simp_all add: getDownscaleFactor_def ex_simps)
  moreover have "\<exists>res pargs rargs.
         forward ex_scaleOut (ex_stages 3) ex_model ex_camera 0 = Inr res
         \<and> fr_calls res ! 0 = CallProject pargs
         \<and> pa_height pargs = 2 \<and> pa_width pargs = 3 \<and> pa_fx pargs = 2 \<and> pa_cx pargs = 3 / 2
         \<and> fr_calls res ! 2 = CallRasterize rargs
         \<and> ra_height rargs = 2 \<and> ra_width rargs = 3"
    by (simp add: forward_def getDownscaleFactor_def Let_def tileBounds_def
        ex_scaleOut_def degreesToUse_def forward_project_args_def
        forward_raster_args_def ex_simps)
  ultimately show ?thesis by simp
qed

section \<open>The projection matrix\<close>

text \<open>The matrix of lines 28-33, entry by entry over its three divisors.\<close>

lemma projectionMatrix_divisors:
  "projectionMatrix zNear zFar fovx fovy =
     (case projectionDivisors zNear zFar fovx fovy of
        (d1, d2, d3) \<Rightarrow>
          [[2 * zNear / d1, 0, 0, 0],
           [0, 2 * zNear / d2, 0, 0],
           [0, 0, (zFar + zNear) / d3, - (zFar * zNear) / d3],
           [0, 0, 1, 0]])"
  by (simp add: projectionMatrix_def projectionDivisors_def Let_def)

lemma tan_half_pos: "0 < x \<Longrightarrow> x < pi \<Longrightarrow> 0 < tan (x / 2)"
  by (rule tan_gt_zero) simp_all

lemma forward_projMat_used:
  assumes "forward scaleOut ext m cam s = Inr res"
  shows "\<exists>f pargs rest. getDownscaleFactor m s = Inr f \<and> fr_calls res = CallProject pargs # rest \<and>
           pa_projMat pargs =
             matmul (projectionMatrix forward_zNear forward_zFar
                       (fovX (scaleOut (1 / of_int f) cam)) (fovY (scaleOut (1 / of_int f) cam)))
                    (pa_viewMat pargs)"
proof -
  obtain f where f: "getDownscaleFactor m s = Inr f"
    using assms by (cases "getDownscaleFactor m s") (simp_all add: forward_def)
  obtain tb where tb: "tileBounds ext (scaleOut (1 / of_int f) cam) = Inr tb"
    using assms f
    by (cases "tileBounds ext (scaleOut (1 / of_int f) cam)") (simp_all add: forward_def Let_def)
  show ?thesis
    using assms f tb
    by (auto simp: forward_def Let_def forward_project_args_def forward_projMat_def
        split: sum.splits if_splits)
qed

text \<open>
  Claim C10. \<open>forward\<close> builds its projection matrix with the clip planes
  \<open>zNear = 0.001\<close> and \<open>zFar = 1000\<close> of line 72, whatever the call: they are
  positive and \<open>zNear < zFar\<close>; the matrix passed on to the projection stage is
  \<open>projectionMatrix\<close> at these planes times the view matrix; and with both fields of
  view in \<open>(0, pi)\<close> the divisors \<open>r - l\<close>, \<open>t - b\<close> and \<open>zFar - zNear\<close> are not
  zero (over the reals).
\<close>

theorem forward_clip_planes:
  "forward_zNear = 1 / 1000 \<and> forward_zFar = 1000
   \<and> 0 < forward_zNear \<and> 0 < forward_zFar \<and> forward_zNear < forward_zFar
   \<and> (\<forall>res. forward scaleOut ext m cam s = Inr res \<longrightarrow>
        (\<exists>f pargs rest. getDownscaleFactor m s = Inr f \<and> fr_calls res = CallProject pargs # rest \<and>
           pa_projMat pargs =
             matmul (projectionMatrix forward_zNear forward_zFar
                       (fovX (scaleOut (1 / of_int f) cam)) (fovY (scaleOut (1 / of_int f) cam)))
                    (pa_viewMat pargs)))
   \<and> (0 < fovx \<and> fovx < pi \<and> 0 < fovy \<and> fovy < pi \<longrightarrow>
        (case projectionDivisors forward_zNear forward_zFar fovx fovy of
           (d1, d2, d3) \<Rightarrow> d1 \<noteq> 0 \<and> d2 \<noteq> 0 \<and> d3 \<noteq> 0))"
proof -
  have planes: "forward_zNear = 1 / 1000" "forward_zFar = 1000"
    by (simp_all add: forward_zNear_def forward_zFar_def)
  have div: "case projectionDivisors forward_zNear forward_zFar fovx fovy of
           (d1, d2, d3) \<Rightarrow> d1 \<noteq> 0 \<and> d2 \<noteq> 0 \<and> d3 \<noteq> 0"
    if "0 < fovx \<and> fovx < pi \<and> 0 < fovy \<and> fovy < pi"
  proof -
    have "0 < tan (fovx / 2)" "0 < tan (fovy / 2)"
      using that by (simp_all add: tan_half_pos)
    then show ?thesis
      by (simp add: projectionDivisors_def Let_def proj_t_def proj_r_def planes)
  qed
  have pos: "0 < forward_zNear" "0 < forward_zFar" "forward_zNear < forward_zFar"
    by (simp_all add: planes)
  show ?thesis
    using planes pos div forward_projMat_used [of scaleOut ext m cam s]
    by (intro conjI allI impI) (assumption | blast)+
qed

text \<open>At a field of view of \<open>pi / 2\<close> the divisors are \<open>0.002\<close>, \<open>0.002\<close> and \<open>999.999\<close>.\<close>

theorem forward_clip_planes_witness:
  "(case projectionDivisors forward_zNear forward_zFar (pi / 2) (pi / 2) of
      (d1, d2, d3) \<Rightarrow> d1 \<noteq> 0 \<and> d2 \<noteq> 0 \<and> d3 \<noteq> 0)
   \<and> projectionDivisors forward_zNear forward_zFar (pi / 2) (pi / 2) = (1 / 500, 1 / 500, 999999 / 1000)
   \<and> (\<exists>res pargs rest.
         forward ex_scaleOut (ex_stages 3) ex_model ex_camera 0 = Inr res
         \<and> fr_calls res = CallProject pargs # rest
         \<and> pa_projMat pargs =
             matmul (projectionMatrix (1 / 1000) 1000 (2 * arctan (3 / 4)) (2 * arctan (2 / 4)))
               (pa_viewMat pargs))"
proof -
  have h: "0 < pi / 2 \<and> pi / 2 < pi \<and> 0 < pi / 2 \<and> pi / 2 < pi"
    by simp
  have t: "tan (pi / 4) = 1" by (rule tan_45)
  note inst = forward_clip_planes [of ex_scaleOut "ex_stages 3" ex_model ex_camera 0 "pi / 2" "pi / 2"]
  from inst [THEN conjunct2, THEN conjunct2, THEN conjunct2, THEN conjunct2, THEN conjunct2,
            THEN conjunct2, THEN mp, OF h]
  have d: "case projectionDivisors forward_zNear forward_zFar (pi / 2) (pi / 2) of
      (d1, d2, d3) \<Rightarrow> d1 \<noteq> 0 \<and> d2 \<noteq> 0 \<and> d3 \<noteq> 0" .
  have v: "projectionDivisors forward_zNear forward_zFar (pi / 2) (pi / 2) = (1 / 500, 1 / 500, 999999 / 1000)"
    using t
    by (simp add: projectionDivisors_def Let_def proj_t_def proj_r_def forward_zNear_def forward_zFar_def)
  have f: "\<exists>res pargs rest.
         forward ex_scaleOut (ex_stages 3) ex_model ex_camera 0 = Inr res
         \<and> fr_calls res = CallProject pargs # rest
         \<and> pa_projMat pargs =
             matmul (projectionMatrix (1 / 1000) 1000 (2 * arctan (3 / 4)) (2 * arctan (2 / 4)))
               (pa_viewMat pargs)"
    by (simp add: forward_def getDownscaleFactor_def Let_def tileBounds_def
        ex_scaleOut_def degreesToUse_def forward_project_args_def forward_projMat_def
        forward_zNear_def forward_zFar_def fovX_def fovY_def ex_simps)
  from d v f show ?thesis by (intro conjI)
qed

section \<open>The view directions\<close>

lemma take3: "3 \<le> length xs \<Longrightarrow> take 3 xs = [xs ! 0, xs ! 1, xs ! 2]"
  by (cases xs; cases "tl xs"; cases "tl (tl xs)") (auto simp: numeral_3_eq_3)

lemma column3: "4 \<le> length row \<Longrightarrow> take (Suc 0) (drop 3 row) = [row ! 3]"
  by (cases "drop 3 row") (auto simp: hd_drop_conv_nth dest: arg_cong [where f = hd])

lemma cam_T_position:
  assumes "3 \<le> length (camToWorld cam)"
    and "\<forall>row \<in> set (take 3 (camToWorld cam)). 4 \<le> length row"
  shows "concat (transpose (cam_T cam)) = cameraPosition cam"
proof -
  let ?c = "camToWorld cam"
  have t3: "take 3 ?c = [?c ! 0, ?c ! 1, ?c ! 2]"
    using assms(1) by (rule take3)
  have len: "4 \<le> length (?c ! 0)" "4 \<le> length (?c ! 1)" "4 \<le> length (?c ! 2)"
    using assms(2) unfolding t3 by simp_all
  have "cam_T cam = [[?c ! 0 ! 3], [?c ! 1 ! 3], [?c ! 2 ! 3]]"
    unfolding cam_T_def slice2_def using t3 len by (simp add: column3)
  then show ?thesis
    by (simp add: cameraPosition_def t3)
qed

lemma sum_squares_nonneg: "0 \<le> sum_list (map (\<lambda>x. x\<^sup>2) (v::real list))"
  by (rule sum_list_nonneg) auto

lemma sum_squares_zero: "sum_list (map (\<lambda>x. x\<^sup>2) v) = 0 \<longleftrightarrow> (\<forall>x \<in> set v. x = (0::real))"
proof -
  have "sum_list (map (\<lambda>x. x\<^sup>2) v) = 0 \<longleftrightarrow> (\<forall>y \<in> set (map (\<lambda>x. x\<^sup>2) v). y = 0)"
    by (rule sum_list_nonneg_eq_0_iff) auto
  then show ?thesis by simp
qed

lemma l2norm_zero: "l2norm v = 0 \<longleftrightarrow> (\<forall>x \<in> set v. x = 0)"
  by (simp add: l2norm_def sum_squares_zero sum_squares_nonneg)

lemma l2norm_normalized:
  assumes "l2norm d \<noteq> 0"
  shows "l2norm (map (\<lambda>x. x / l2norm d) d) = 1"
proof -
  let ?n = "l2norm d"
  let ?S = "sum_list (map (\<lambda>x. x\<^sup>2) d)"
  have nn: "0 \<le> ?S" by (rule sum_squares_nonneg)
  have n2: "?n\<^sup>2 = ?S"
    using nn by (simp add: l2norm_def)
  have S0: "?S \<noteq> 0"
    using assms by (simp add: l2norm_def)
  have "sum_list (map (\<lambda>x. (x / ?n)\<^sup>2) d) = sum_list (map (\<lambda>x. x\<^sup>2 * (1 / ?S)) d)"
    by (simp add: power_divide n2)
  also have "\<dots> = ?S * (1 / ?S)"
    by (rule sum_list_mult_const)
  also have "\<dots> = 1"
    using S0 by simp
  finally show ?thesis
    by (simp add: l2norm_def comp_def)
qed

lemma diff_zero_eq:
  assumes "length a = length b" and "\<forall>x \<in> set (map2 (-) a b). x = (0::real)"
  shows "a = b"
  using assms by (induction a b rule: list_induct2) auto


text \<open>
  Claim C5, as the code has it. On the path that reaches the spherical-harmonics stage,
  the view direction passed for primitive \<open>i\<close> is \<open>mean - cameraPosition\<close> divided by
  its norm (lines 109-110: \<open>means - T\<^sup>T\<close>), the unit vector from the camera to the
  primitive; it has norm 1 when the mean is not the camera position. The camera's pose
  is a 4 x 4 matrix that \<open>scaleOutputResolution\<close> leaves alone, a mean has three
  entries.
\<close>

theorem view_direction_from_camera:
  assumes run: "forward scaleOut ext m cam s = Inr res"
    and call: "CallSH deg viewDirs colors \<in> set (fr_calls res)"
    and pose: "\<forall>sf c. camToWorld (scaleOut sf c) = camToWorld c"
    and rows: "3 \<le> length (camToWorld cam)"
    and cols: "\<forall>row \<in> set (take 3 (camToWorld cam)). 4 \<le> length row"
    and i: "i < length (means m)"
    and len: "length (means m ! i) = 3"
    and ne: "means m ! i \<noteq> cameraPosition cam"
  shows "length viewDirs = length (means m)
       \<and> viewDirs ! i =
           map (\<lambda>x. x / l2norm (map2 (-) (means m ! i) (cameraPosition cam)))
             (map2 (-) (means m ! i) (cameraPosition cam))
       \<and> l2norm (viewDirs ! i) = 1"
proof -
  let ?d = "map2 (-) (means m ! i) (cameraPosition cam)"
  from forward_Inr [OF run] call obtain f m2 where
    v: "viewDirs = forward_viewDirs m2 (scaleOut (1 / of_int f) cam)" and
    m2: "means m2 = means m"
    by (auto simp: Let_def split: if_splits)
  let ?cam1 = "scaleOut (1 / of_int f) cam"
  have c1: "camToWorld ?cam1 = camToWorld cam"
    using pose by simp
  have T: "concat (transpose (cam_T ?cam1)) = cameraPosition cam"
    using cam_T_position [of ?cam1] rows cols c1 by (simp add: cameraPosition_def)
  have vd: "viewDirs = map (\<lambda>row. map (\<lambda>x. x / l2norm row) row)
                         (map (\<lambda>mu. map2 (-) mu (cameraPosition cam)) (means m))"
    unfolding v forward_viewDirs_def normalize_rows_def T m2 ..
  have n: "length viewDirs = length (means m)"
    by (simp add: vd)
  have vi: "viewDirs ! i = map (\<lambda>x. x / l2norm ?d) ?d"
    using i by (simp add: vd)
  have lp: "length (cameraPosition cam) = 3"
    using rows by (simp add: cameraPosition_def)
  have "l2norm ?d \<noteq> 0"
  proof
    assume "l2norm ?d = 0"
    then have "\<forall>x \<in> set ?d. x = 0" by (simp only: l2norm_zero)
    with len lp have "means m ! i = cameraPosition cam"
      by (intro diff_zero_eq) simp_all
    with ne show False by simp
  qed
  then have "l2norm (viewDirs ! i) = 1"
    unfolding vi by (rule l2norm_normalized)
  with n vi show ?thesis by simp
qed


text \<open>
  The example, at step 2500, where the downscale factor is 1: the primitive is at
  \<open>(1, 0, 0)\<close>, the camera at the origin.
\<close>

lemmas forward_eval =
  forward_def getDownscaleFactor_def Let_def tileBounds_def degreesToUse_def
  forward_viewDirs_def forward_colors_def cam_T_def slice2_def normalize_rows_def l2norm_def

theorem view_direction_from_camera_witness:
  "forward ex_scaleOut (ex_stages 3) ex_model ex_camera 2500
     = Inr (projr (forward ex_scaleOut (ex_stages 3) ex_model ex_camera 2500))
   \<and> CallSH 2 [[1, 0, 0]] [[[0, 0, 0]]]
       \<in> set (fr_calls (projr (forward ex_scaleOut (ex_stages 3) ex_model ex_camera 2500)))
   \<and> means ex_model ! 0 = [1, 0, 0] \<and> cameraPosition ex_camera = [0, 0, 0]
   \<and> [[1, 0, 0]] ! 0 =
        map (\<lambda>x. x / l2norm (map2 (-) (means ex_model ! 0) (cameraPosition ex_camera)))
          (map2 (-) (means ex_model ! 0) (cameraPosition ex_camera))
   \<and> l2norm ([[1, 0, 0]] ! 0) = 1"
proof -
  let ?r = "forward ex_scaleOut (ex_stages 3) ex_model ex_camera 2500"
  have run: "?r = Inr (projr ?r)"
    by (simp add: forward_eval ex_scaleOut_def ex_simps)
  have call: "CallSH 2 [[1, 0, 0]] [[[0, 0, 0]]] \<in> set (fr_calls (projr ?r))"
    by (simp add: forward_eval ex_scaleOut_def ex_simps)
  have pose: "\<forall>sf c. camToWorld (ex_scaleOut sf c) = camToWorld c"
    by (simp add: ex_scaleOut_def)
  have rows: "3 \<le> length (camToWorld ex_camera)"
    and cols: "\<forall>row \<in> set (take 3 (camToWorld ex_camera)). 4 \<le> length row"
    and i: "0 < length (means ex_model)"
    and len: "length (means ex_model ! 0) = 3"
    and mu: "means ex_model ! 0 = [1, 0, 0]"
    and pos: "cameraPosition ex_camera = [0, 0, 0]"
    by (simp_all add: ex_model_def ex_camera_def cameraPosition_def)
  have ne: "means ex_model ! 0 \<noteq> cameraPosition ex_camera"
    by (simp add: mu pos)
  from view_direction_from_camera [OF run call pose rows cols i len ne] run call mu pos
  show ?thesis by simp
qed

text \<open>
  The claim as stated has the direction \<open>cameraPosition - mean\<close>: \<open>(-1, 0, 0)\<close> in the
  example, where \<open>forward\<close> passes \<open>(1, 0, 0)\<close>.
\<close>

theorem view_direction_counterexample:
  "sh_viewDirs (forward ex_scaleOut (ex_stages 3) ex_model ex_camera 2500) = [[[1, 0, 0]]]
   \<and> normalize_rows (map (\<lambda>mu. map2 (-) (cameraPosition ex_camera) mu) (means ex_model))
       = [[- 1, 0, 0]]"
  by (simp add: sh_viewDirs_def forward_eval ex_scaleOut_def cameraPosition_def ex_simps)

section \<open>Facts about the statistics update\<close>

lemma length_masked_select:
  "length msk = length t \<Longrightarrow> length (masked_select t msk) = length (filter id msk)"
  unfolding masked_select_def by (induction t msk rule: list_induct2') auto

lemma index_mask_Inr:
  "index_mask t msk = Inr v \<longleftrightarrow> length msk = length t \<and> v = masked_select t msk"
  by (auto simp: index_mask_def)

lemma index_put_mask_Inr:
  "index_put_mask t msk vals = Inr v \<longleftrightarrow>
     length msk = length t \<and> length vals = length (filter id msk) \<and> v = scatter t msk vals"
  by (auto simp: index_put_mask_def)

lemma bind_err_Inr: "bind_err r f = Inr y \<longleftrightarrow> (\<exists>x. r = Inr x \<and> f x = Inr y)"
  by (cases r) (simp_all add: bind_err_def)

lemma length_scatter: "length (scatter t msk vals) = length t"
  by (induction t msk vals rule: scatter.induct) simp_all

lemma scatter_selected:
  assumes "length msk = length t" and "length u = length t"
  shows "scatter t msk (map2 f (masked_select t msk) (masked_select u msk))
       = map (\<lambda>(x, y, b). if b then f x y else x) (zip t (zip u msk))"
  using assms unfolding masked_select_def
proof (induction t arbitrary: msk u)
  case Nil
  then show ?case by simp
next
  case (Cons x t)
  then obtain b msk' y u' where "msk = b # msk'" "u = y # u'"
    by (metis length_Suc_conv)
  with Cons show ?case by (cases b) simp_all
qed

lemma scatter_selected_nth:
  assumes "length msk = length t" and "length u = length t" and "i < length t"
  shows "scatter t msk (map2 f (masked_select t msk) (masked_select u msk)) ! i
       = (if msk ! i then f (t ! i) (u ! i) else t ! i)"
  using assms by (simp add: scatter_selected)

lemma scatter_map_selected_nth:
  assumes "length msk = length t" and "i < length t"
  shows "scatter t msk (map f (masked_select t msk)) ! i
       = (if msk ! i then f (t ! i) else t ! i)"
proof -
  have "map f (masked_select t msk) = map2 (\<lambda>x y. f x) (masked_select t msk) (masked_select t msk)"
    by (simp add: zip_same_conv_map comp_def)
  then show ?thesis
    using scatter_selected_nth [OF assms(1) refl assms(2), of "\<lambda>x y. f x"] by simp
qed

lemma map2_flip: "map2 f xs ys = map2 (\<lambda>y x. f x y) ys xs"
  by (induction xs ys rule: list_induct2') simp_all

lemma map2_map_right: "map2 f xs (map g ys) = map2 (\<lambda>x y. f x (g y)) xs ys"
  by (induction xs ys rule: list_induct2') simp_all

lemma update_gradNorm_fresh:
  "xysGradNorm m = [] \<Longrightarrow>
     update_gradNorm m msk grads = Inr (m\<lparr> xysGradNorm := grads, visCounts := map (\<lambda>_. 1) grads \<rparr>)"
  by (simp add: update_gradNorm_def)

lemma update_gradNorm_unfold:
  assumes "xysGradNorm m \<noteq> []"
  shows "update_gradNorm m msk grads = Inr m' \<longleftrightarrow>
     length msk = length (visCounts m) \<and> length msk = length grads \<and>
     length msk = length (xysGradNorm m) \<and>
     m' = m\<lparr> visCounts := scatter (visCounts m) msk (map (\<lambda>c. c + 1) (masked_select (visCounts m) msk)),
             xysGradNorm := scatter (xysGradNorm m) msk
                 (map2 (+) (masked_select grads msk) (masked_select (xysGradNorm m) msk)) \<rparr>"
proof -
  have l1: "length (map (\<lambda>c. c + 1) (masked_select (visCounts m) msk)) = length (filter id msk)"
    if "length msk = length (visCounts m)"
    using that by (simp add: length_masked_select)
  have l2: "length (map2 (+) (masked_select grads msk) (masked_select (xysGradNorm m) msk))
       = length (filter id msk)"
    if "length msk = length grads" "length msk = length (xysGradNorm m)"
    using that by (simp add: length_masked_select)
  show ?thesis
    unfolding update_gradNorm_def
    using assms l1 l2
    by (simp add: bind_err_def index_mask_def index_put_mask_def) metis
qed

lemma update_gradNorm_Inr:
  assumes "update_gradNorm m msk grads = Inr m'" and "xysGradNorm m \<noteq> []"
  shows "length (xysGradNorm m) = length msk \<and> length (visCounts m) = length msk
       \<and> length grads = length msk
       \<and> length (xysGradNorm m') = length msk \<and> length (visCounts m') = length msk
       \<and> max2DSize m' = max2DSize m \<and> radii m' = radii m
       \<and> lastHeight m' = lastHeight m \<and> lastWidth m' = lastWidth m
       \<and> (\<forall>i < length msk.
            visCounts m' ! i = (if msk ! i then visCounts m ! i + 1 else visCounts m ! i) \<and>
            xysGradNorm m' ! i = (if msk ! i then grads ! i + xysGradNorm m ! i else xysGradNorm m ! i))"
proof -
  from assms have lens: "length msk = length (visCounts m)" "length msk = length grads"
      "length msk = length (xysGradNorm m)"
    and m': "m' = m\<lparr> visCounts := scatter (visCounts m) msk (map (\<lambda>c. c + 1) (masked_select (visCounts m) msk)),
                     xysGradNorm := scatter (xysGradNorm m) msk
                        (map2 (+) (masked_select grads msk) (masked_select (xysGradNorm m) msk)) \<rparr>"
    by (simp_all add: update_gradNorm_unfold)
  have flip: "map2 (+) (masked_select grads msk) (masked_select (xysGradNorm m) msk)
            = map2 (\<lambda>x g. g + x) (masked_select (xysGradNorm m) msk) (masked_select grads msk)"
    by (rule map2_flip)
  have vc: "visCounts m' ! i = (if msk ! i then visCounts m ! i + 1 else visCounts m ! i)"
    if "i < length msk" for i
  proof -
    have "visCounts m' = scatter (visCounts m) msk (map (\<lambda>c. c + 1) (masked_select (visCounts m) msk))"
      by (simp add: m')
    then show ?thesis
      using that lens(1) by (simp only: scatter_map_selected_nth)
  qed
  have gn: "xysGradNorm m' ! i = (if msk ! i then grads ! i + xysGradNorm m ! i else xysGradNorm m ! i)"
    if "i < length msk" for i
  proof -
    have "xysGradNorm m' = scatter (xysGradNorm m) msk
            (map2 (\<lambda>x g. g + x) (masked_select (xysGradNorm m) msk) (masked_select grads msk))"
      by (simp add: m' flip)
    moreover have "length grads = length (xysGradNorm m)" using lens by simp
    ultimately show ?thesis
      using that lens(3) by (simp only: scatter_selected_nth)
  qed
  have frame: "max2DSize m' = max2DSize m" "radii m' = radii m"
      "lastHeight m' = lastHeight m" "lastWidth m' = lastWidth m"
      "length (xysGradNorm m') = length msk" "length (visCounts m') = length msk"
    using lens by (simp_all add: m' length_scatter)
  show ?thesis
    using lens frame vc gn by simp
qed

lemma update_gradNorm_ok:
  assumes "xysGradNorm m \<noteq> []" and "length (xysGradNorm m) = length msk"
    and "length (visCounts m) = length msk" and "length grads = length msk"
  shows "\<exists>m'. update_gradNorm m msk grads = Inr m'"
  using assms by (simp add: update_gradNorm_unfold)

lemma update_max2DSize_unfold:
  "update_max2DSize m msk = Inr m' \<longleftrightarrow>
     (let old = (if max2DSize m = [] then map (\<lambda>_. 0) (radii m) else max2DSize m)
      in length msk = length (radii m) \<and> length msk = length old \<and>
         m' = m\<lparr> max2DSize := scatter old msk
                 (map2 max (masked_select old msk)
                    (map (\<lambda>r. of_int r / of_int (max (lastHeight m) (lastWidth m)))
                       (masked_select (radii m) msk))) \<rparr>)"
proof -
  define old where "old = (if max2DSize m = [] then map (\<lambda>_. 0::real) (radii m) else max2DSize m)"
  define m1 where "m1 = (if max2DSize m = [] then m\<lparr> max2DSize := map (\<lambda>_. 0) (radii m) \<rparr> else m)"
  have m1: "max2DSize m1 = old" "radii m1 = radii m" "lastHeight m1 = lastHeight m"
    "lastWidth m1 = lastWidth m" "m1\<lparr> max2DSize := x \<rparr> = m\<lparr> max2DSize := x \<rparr>" for x
    by (simp_all add: m1_def old_def)
  have len: "length (map2 max (masked_select old msk)
                    (map (\<lambda>r. real_of_int r / of_int (max (lastHeight m) (lastWidth m)))
                       (masked_select (radii m) msk))) = length (filter id msk)"
    if "length msk = length (radii m)" "length msk = length old"
    using that by (simp add: length_masked_select)
  have "update_max2DSize m msk = Inr m' \<longleftrightarrow>
      length msk = length (radii m) \<and> length msk = length old \<and>
         m' = m\<lparr> max2DSize := scatter old msk
                 (map2 max (masked_select old msk)
                    (map (\<lambda>r. of_int r / of_int (max (lastHeight m) (lastWidth m)))
                       (masked_select (radii m) msk))) \<rparr>"
    unfolding update_max2DSize_def Let_def m1_def [symmetric]
    using len
    by (simp add: bind_err_def index_mask_def index_put_mask_def m1) metis
  then show ?thesis
    by (simp add: Let_def old_def)
qed

lemma update_max2DSize_Inr:
  assumes "update_max2DSize m msk = Inr m'"
  shows "length msk = length (radii m)
       \<and> (max2DSize m \<noteq> [] \<longrightarrow> length (max2DSize m) = length msk)
       \<and> length (max2DSize m') = length msk
       \<and> xysGradNorm m' = xysGradNorm m \<and> visCounts m' = visCounts m
       \<and> (\<forall>i < length msk.
            max2DSize m' ! i =
              (if msk ! i
               then max (if max2DSize m = [] then 0 else max2DSize m ! i)
                      (of_int (radii m ! i) / of_int (max (lastHeight m) (lastWidth m)))
               else (if max2DSize m = [] then 0 else max2DSize m ! i)))"
proof -
  define old where "old = (if max2DSize m = [] then map (\<lambda>_. 0::real) (radii m) else max2DSize m)"
  let ?g = "\<lambda>r. real_of_int r / of_int (max (lastHeight m) (lastWidth m))"
  from assms have lr: "length msk = length (radii m)" and lo: "length msk = length old"
    and m': "m' = m\<lparr> max2DSize := scatter old msk
                 (map2 max (masked_select old msk) (map ?g (masked_select (radii m) msk))) \<rparr>"
    by (simp_all add: update_max2DSize_unfold Let_def old_def)
  have eq: "map2 max (masked_select old msk) (map ?g (masked_select (radii m) msk))
          = map2 (\<lambda>x r. max x (?g r)) (masked_select old msk) (masked_select (radii m) msk)"
    by (rule map2_map_right)
  have nth: "max2DSize m' ! i = (if msk ! i then max (old ! i) (?g (radii m ! i)) else old ! i)"
    if "i < length msk" for i
  proof -
    have "max2DSize m' = scatter old msk
        (map2 (\<lambda>x r. max x (?g r)) (masked_select old msk) (masked_select (radii m) msk))"
      by (simp add: m' eq)
    moreover have "length (radii m) = length old" using lr lo by simp
    ultimately show ?thesis
      using that lo by (simp only: scatter_selected_nth)
  qed
  have old: "old ! i = (if max2DSize m = [] then 0 else max2DSize m ! i)"
    if "i < length msk" for i
    using that lr by (simp add: old_def)
  have l1: "max2DSize m \<noteq> [] \<longrightarrow> length (max2DSize m) = length msk"
    using lo by (simp add: old_def)
  have frame: "length (max2DSize m') = length msk" "xysGradNorm m' = xysGradNorm m"
      "visCounts m' = visCounts m"
    using lo by (simp_all add: m' length_scatter)
  show ?thesis
    using lr l1 frame nth old by simp
qed

lemma update_max2DSize_ok:
  assumes "max2DSize m = [] \<or> length (max2DSize m) = length msk" and "length msk = length (radii m)"
  shows "\<exists>m'. update_max2DSize m msk = Inr m'"
  using assms by (auto simp: update_max2DSize_unfold Let_def)

text \<open>One pass through lines 162-180.\<close>

lemma afterTrain_stats_Inr:
  assumes "afterTrain_stats m = Inr m'"
  shows "\<exists>g m1. xys_grad m = Some g
       \<and> update_gradNorm m (map (\<lambda>r. 0 < r) (radii m)) (map l2norm g) = Inr m1
       \<and> update_max2DSize m1 (map (\<lambda>r. 0 < r) (radii m)) = Inr m'"
  using assms
  by (auto simp: afterTrain_stats_def Let_def bind_err_Inr split: option.splits)

lemma afterTrain_stats_ok:
  assumes "stats_shapes_ok m"
  shows "\<exists>m'. afterTrain_stats m = Inr m'"
proof -
  let ?msk = "map (\<lambda>r. 0 < r) (radii m)"
  from assms obtain g where g: "xys_grad m = Some g"
    and gn: "xysGradNorm m = [] \<or>
             (length (xysGradNorm m) = length (radii m) \<and>
              length (visCounts m) = length (radii m) \<and>
              length g = length (radii m))"
    and mx: "max2DSize m = [] \<or> length (max2DSize m) = length (radii m)"
    by (auto simp: stats_shapes_ok_def split: option.splits)
  have "\<exists>m1. update_gradNorm m ?msk (map l2norm g) = Inr m1"
  proof (cases "xysGradNorm m = []")
    case True
    then show ?thesis by (simp add: update_gradNorm_fresh)
  next
    case False
    with gn show ?thesis by (intro update_gradNorm_ok) simp_all
  qed
  then obtain m1 where m1: "update_gradNorm m ?msk (map l2norm g) = Inr m1" ..
  have keep: "max2DSize m1 = max2DSize m \<and> radii m1 = radii m"
  proof (cases "xysGradNorm m = []")
    case True
    with m1 show ?thesis
      by (auto simp: update_gradNorm_fresh)
  next
    case False
    from update_gradNorm_Inr [OF m1 False]
    show ?thesis by simp
  qed
  from mx keep update_max2DSize_ok [of m1 ?msk]
  obtain m' where "update_max2DSize m1 ?msk = Inr m'" by auto
  with g m1 show ?thesis
    by (simp add: afterTrain_stats_def Let_def bind_err_def)
qed

lemma l2norm_axis: "l2norm [x, 0] = \<bar>x\<bar>"
  by (simp add: l2norm_def)

lemmas stats_eval =
  afterTrain_stats_def update_gradNorm_def update_max2DSize_def bind_err_def index_mask_def
  index_put_mask_def masked_select_def observe_def ex_obs_def l2norm_axis Let_def

section \<open>The exit of \<open>afterTrain\<close>\<close>

text \<open>
  Claim C3. A call of \<open>afterTrain\<close> with \<open>step < stopSplitAt\<close> never returns: it
  updates the statistics, prints \<open>max2DSize\<close> and exits with status 1 (lines 182-183),
  unless a torch exception ends it before; with the gradient of \<open>xys\<close> defined and the
  statistics empty or of the current size none is raised. A call that returns has
  \<open>step \<ge> stopSplitAt\<close>, and leaves the model as it was.
\<close>

theorem afterTrain_exits_below_stopSplitAt:
  "(step < stopSplitAt m \<longrightarrow>
      (\<forall>m'. afterTrain m step \<noteq> Returned m')
    \<and> (\<forall>m'. afterTrain_stats m = Inr m' \<longrightarrow> afterTrain m step = Exited 1 (max2DSize m'))
    \<and> (\<forall>e. afterTrain_stats m = Inl e \<longrightarrow> afterTrain m step = Failed e)
    \<and> (stats_shapes_ok m \<longrightarrow> (\<exists>m'. afterTrain_stats m = Inr m')))
   \<and> (\<forall>m'. afterTrain m step = Returned m' \<longrightarrow> stopSplitAt m \<le> step \<and> m' = m)"
proof -
  have below: "afterTrain m step =
      (case afterTrain_stats m of Inl e \<Rightarrow> Failed e | Inr m' \<Rightarrow> Exited 1 (max2DSize m'))"
    if "step < stopSplitAt m"
    using that by (simp add: afterTrain_def)
  have never: "afterTrain m step \<noteq> Returned m'" if "step < stopSplitAt m" for m'
    using below [OF that] by (simp split: sum.splits)
  have exits: "afterTrain m step = Exited 1 (max2DSize m')"
    if "step < stopSplitAt m" "afterTrain_stats m = Inr m'" for m'
    using below [OF that(1)] that(2) by simp
  have fails: "afterTrain m step = Failed e"
    if "step < stopSplitAt m" "afterTrain_stats m = Inl e" for e
    using below [OF that(1)] that(2) by simp
  have ret: "stopSplitAt m \<le> step \<and> m' = m" if r: "afterTrain m step = Returned m'" for m'
  proof -
    have ge: "stopSplitAt m \<le> step"
      using never [of m'] r by (cases "step < stopSplitAt m") simp_all
    with r have "m' = m"
      by (simp add: afterTrain_def Let_def split: sum.splits if_splits)
    with ge show ?thesis by simp
  qed
  show ?thesis
    using never exits fails ret afterTrain_stats_ok [of m] by blast
qed

text \<open>
  The example model has \<open>stopSplitAt = 15000\<close>: at step 0 the process exits after
  printing the one size \<open>2 / 5\<close>, at step 15000 the call returns.
\<close>

theorem afterTrain_exits_below_stopSplitAt_witness:
  "0 < stopSplitAt (observe ex_model (ex_obs 2 3))
   \<and> stats_shapes_ok (observe ex_model (ex_obs 2 3))
   \<and> afterTrain (observe ex_model (ex_obs 2 3)) 0 \<noteq> Returned (observe ex_model (ex_obs 2 3))
   \<and> afterTrain (observe ex_model (ex_obs 2 3)) 0 = Exited 1 [2 / 5]
   \<and> afterTrain ex_model 15000 = Returned ex_model
   \<and> stopSplitAt ex_model \<le> 15000"
proof -
  let ?m = "observe ex_model (ex_obs 2 3)"
  have lt: "0 < stopSplitAt ?m"
    by (simp add: observe_def ex_model_def)
  have ok: "stats_shapes_ok ?m"
    by (simp add: stats_shapes_ok_def observe_def ex_model_def ex_obs_def)
  have st: "afterTrain_stats ?m = Inr (?m\<lparr> xysGradNorm := [3], visCounts := [1], max2DSize := [2 / 5] \<rparr>)"
    by (simp add: stats_eval ex_model_def)
  have ret: "afterTrain ex_model 15000 = Returned ex_model"
    by (simp add: afterTrain_def ex_simps)
  note inst = afterTrain_exits_below_stopSplitAt [of 0 ?m]
  from inst lt have "afterTrain ?m 0 \<noteq> Returned ?m" by blast
  moreover from inst lt st have "afterTrain ?m 0 = Exited 1 [2 / 5]" by simp
  moreover from afterTrain_exits_below_stopSplitAt [of 15000 ex_model] ret
  have "stopSplitAt ex_model \<le> 15000" by blast
  ultimately show ?thesis using lt ok ret by simp
qed

section \<open>The largest projected size\<close>

lemma update_gradNorm_frame:
  assumes "update_gradNorm m msk grads = Inr m1"
  shows "max2DSize m1 = max2DSize m \<and> radii m1 = radii m
       \<and> lastHeight m1 = lastHeight m \<and> lastWidth m1 = lastWidth m"
proof (cases "xysGradNorm m = []")
  case True
  with assms show ?thesis by (auto simp: update_gradNorm_fresh)
next
  case False
  from update_gradNorm_Inr [OF assms False] show ?thesis by simp
qed

lemma stats_step_max2DSize:
  assumes "afterTrain_stats m = Inr m'"
  shows "length (max2DSize m') = length (radii m)
       \<and> (max2DSize m \<noteq> [] \<longrightarrow> length (max2DSize m) = length (radii m))
       \<and> (\<forall>i < length (radii m).
            max2DSize m' ! i =
              (if 0 < radii m ! i
               then max (if max2DSize m = [] then 0 else max2DSize m ! i)
                      (of_int (radii m ! i) / of_int (max (lastHeight m) (lastWidth m)))
               else (if max2DSize m = [] then 0 else max2DSize m ! i)))"
proof -
  let ?msk = "map (\<lambda>r. 0 < r) (radii m)"
  from afterTrain_stats_Inr [OF assms] obtain g m1 where
    m1: "update_gradNorm m ?msk (map l2norm g) = Inr m1" and
    m': "update_max2DSize m1 ?msk = Inr m'"
    by blast
  note fr = update_gradNorm_frame [OF m1]
  from update_max2DSize_Inr [OF m'] fr show ?thesis
    by simp
qed

lemma stats_run_Cons:
  "stats_run m (ob # obs) = Inr m' \<longleftrightarrow>
     (\<exists>m1. afterTrain_stats (observe m ob) = Inr m1 \<and> stats_run m1 obs = Inr m')"
  by (simp add: bind_err_Inr)

lemma stats_run_append:
  "stats_run m (obs1 @ obs2) = Inr m' \<longleftrightarrow>
     (\<exists>m1. stats_run m obs1 = Inr m1 \<and> stats_run m1 obs2 = Inr m')"
  by (induction obs1 arbitrary: m) (auto simp: bind_err_Inr)

lemma observe_fields:
  "max2DSize (observe m ob) = max2DSize m" "radii (observe m ob) = o_radii ob"
  "lastHeight (observe m ob) = o_lastHeight ob" "lastWidth (observe m ob) = o_lastWidth ob"
  "xysGradNorm (observe m ob) = xysGradNorm m" "visCounts (observe m ob) = visCounts m"
  "xys_grad (observe m ob) = Some (o_grad ob)"
  by (simp_all add: observe_def)

lemma stats_run_max2DSize_mono:
  assumes "stats_run m obs = Inr m'" and "i < length (max2DSize m)"
  shows "i < length (max2DSize m') \<and> max2DSize m ! i \<le> max2DSize m' ! i"
  using assms
proof (induction obs arbitrary: m)
  case Nil
  then show ?case by simp
next
  case (Cons ob obs)
  from Cons.prems(1) [unfolded stats_run_Cons] obtain m1 where
    st: "afterTrain_stats (observe m ob) = Inr m1" and run: "stats_run m1 obs = Inr m'"
    by blast
  from Cons.prems(2) have ne: "max2DSize m \<noteq> []" by auto
  from stats_step_max2DSize [OF st] ne Cons.prems(2)
  have len: "length (max2DSize m1) = length (max2DSize m)"
    and i: "i < length (o_radii ob)"
    and v: "max2DSize m1 ! i =
              (if 0 < o_radii ob ! i
               then max (max2DSize m ! i)
                      (of_int (o_radii ob ! i) / of_int (max (o_lastHeight ob) (o_lastWidth ob)))
               else max2DSize m ! i)"
    by (simp_all add: observe_fields)
  from v have "max2DSize m ! i \<le> max2DSize m1 ! i" by simp
  moreover from Cons.IH [OF run] len Cons.prems(2)
  have "i < length (max2DSize m') \<and> max2DSize m1 ! i \<le> max2DSize m' ! i" by simp
  ultimately show ?case by simp
qed

lemma stats_run_max2DSize_le1:
  assumes "stats_run m obs = Inr m'"
    and "i < length (max2DSize m) \<longrightarrow> max2DSize m ! i \<le> 1"
    and "\<forall>ob \<in> set obs. i < length (o_radii ob) \<longrightarrow>
           o_radii ob ! i \<le> max (o_lastHeight ob) (o_lastWidth ob)"
    and "i < length (max2DSize m')"
  shows "max2DSize m' ! i \<le> 1"
  using assms
proof (induction obs arbitrary: m)
  case Nil
  then show ?case by simp
next
  case (Cons ob obs)
  from Cons.prems(1) [unfolded stats_run_Cons] obtain m1 where
    st: "afterTrain_stats (observe m ob) = Inr m1" and run: "stats_run m1 obs = Inr m'"
    by blast
  let ?M = "max (o_lastHeight ob) (o_lastWidth ob)"
  let ?old = "if max2DSize m = [] then 0 else max2DSize m ! i"
  have step: "max2DSize m1 ! i \<le> 1" if i1: "i < length (max2DSize m1)"
  proof -
    from stats_step_max2DSize [OF st] i1
    have i: "i < length (o_radii ob)"
      and len: "max2DSize m \<noteq> [] \<longrightarrow> length (max2DSize m) = length (o_radii ob)"
      and v: "max2DSize m1 ! i =
              (if 0 < o_radii ob ! i then max ?old (of_int (o_radii ob ! i) / of_int ?M) else ?old)"
      by (simp_all add: observe_fields)
    have old: "?old \<le> 1"
      using Cons.prems(2) len i by auto
    have new: "real_of_int (o_radii ob ! i) / real_of_int ?M \<le> 1" if vis: "0 < o_radii ob ! i"
    proof -
      from Cons.prems(3) i have le: "o_radii ob ! i \<le> ?M" by simp
      with vis have "0 < ?M" by linarith
      with le show ?thesis by simp
    qed
    from v old new show ?thesis by simp
  qed
  from Cons.prems(3) have rest: "\<forall>ob \<in> set obs. i < length (o_radii ob) \<longrightarrow>
           o_radii ob ! i \<le> max (o_lastHeight ob) (o_lastWidth ob)"
    by simp
  from Cons.IH [OF run _ rest Cons.prems(4)] step show ?case by blast
qed

text \<open>
  Claim C8. Along the statistics updates of a run, \<open>max2DSize[i]\<close> never decreases:
  its value after a prefix of the steps is at most its value after more steps. Started
  from the empty tensor, \<open>max2DSize[i]\<close> is at most 1 when in every step the projected
  radius of primitive \<open>i\<close> is at most \<open>max(lastHeight, lastWidth)\<close> (floats as reals).
\<close>

theorem max2DSize_nondecreasing_bounded:
  assumes "stats_run m0 obs1 = Inr m1" and "stats_run m0 (obs1 @ obs2) = Inr m2"
  shows "(\<forall>i < length (max2DSize m1).
            i < length (max2DSize m2) \<and> max2DSize m1 ! i \<le> max2DSize m2 ! i)
       \<and> (\<forall>i < length (max2DSize m2).
            max2DSize m0 = [] \<and>
            (\<forall>ob \<in> set (obs1 @ obs2). i < length (o_radii ob) \<longrightarrow>
                o_radii ob ! i \<le> max (o_lastHeight ob) (o_lastWidth ob))
            \<longrightarrow> max2DSize m2 ! i \<le> 1)"
proof -
  from assms have run2: "stats_run m1 obs2 = Inr m2"
    by (auto simp: stats_run_append)
  have mono: "i < length (max2DSize m2) \<and> max2DSize m1 ! i \<le> max2DSize m2 ! i"
    if "i < length (max2DSize m1)" for i
    using stats_run_max2DSize_mono [OF run2 that] .
  have bound: "max2DSize m2 ! i \<le> 1"
    if "i < length (max2DSize m2)" "max2DSize m0 = []"
      "\<forall>ob \<in> set (obs1 @ obs2). i < length (o_radii ob) \<longrightarrow>
                o_radii ob ! i \<le> max (o_lastHeight ob) (o_lastWidth ob)" for i
    using stats_run_max2DSize_le1 [OF assms(2) _ that(3) that(1)] that(2) by simp
  show ?thesis
    using mono bound by blast
qed

text \<open>
  Radius 2, then culled, then radius 4, in a 4 x 5 render: the size is \<open>2 / 5\<close> after
  the first step and \<open>4 / 5\<close> after the third.
\<close>

theorem max2DSize_nondecreasing_bounded_witness:
  "stats_run ex_model [ex_obs 2 3]
     = Inr (observe ex_model (ex_obs 2 3)
              \<lparr> xysGradNorm := [3], visCounts := [1], max2DSize := [2 / 5] \<rparr>)
   \<and> stats_run ex_model ([ex_obs 2 3] @ [ex_obs 0 1, ex_obs 4 1])
     = Inr (observe ex_model (ex_obs 4 1)
              \<lparr> xysGradNorm := [4], visCounts := [2], max2DSize := [4 / 5] \<rparr>)
   \<and> [2 / 5] ! 0 \<le> ([4 / 5] ! 0 :: real) \<and> [4 / 5] ! 0 \<le> (1 :: real)"
proof -
  let ?m1 = "observe ex_model (ex_obs 2 3)
              \<lparr> xysGradNorm := [3], visCounts := [1], max2DSize := [2 / 5] \<rparr>"
  let ?m2 = "observe ex_model (ex_obs 4 1)
              \<lparr> xysGradNorm := [4], visCounts := [2], max2DSize := [4 / 5] \<rparr>"
  have r1: "stats_run ex_model [ex_obs 2 3] = Inr ?m1"
    by (simp add: stats_eval ex_model_def)
  have r2: "stats_run ex_model ([ex_obs 2 3] @ [ex_obs 0 1, ex_obs 4 1]) = Inr ?m2"
    by (simp add: stats_eval ex_model_def)
  from max2DSize_nondecreasing_bounded [OF r1 r2]
  have "[2 / 5] ! 0 \<le> ([4 / 5] ! 0 :: real) \<and> [4 / 5] ! 0 \<le> (1 :: real)"
    by (simp add: ex_model_def ex_obs_def)
  with r1 r2 show ?thesis by simp
qed

section \<open>The running mean of the gradient magnitudes\<close>

lemma stats_step_fresh:
  assumes "afterTrain_stats m = Inr m'" and "xysGradNorm m = []" and "xys_grad m = Some g"
  shows "xysGradNorm m' = map l2norm g \<and> visCounts m' = map (\<lambda>_. 1) g
       \<and> length (max2DSize m') = length (radii m)"
proof -
  let ?msk = "map (\<lambda>r. 0 < r) (radii m)"
  from afterTrain_stats_Inr [OF assms(1)] assms(3) obtain m1 where
    m1: "update_gradNorm m ?msk (map l2norm g) = Inr m1" and
    m': "update_max2DSize m1 ?msk = Inr m'"
    by auto
  from m1 assms(2) have "m1 = m\<lparr> xysGradNorm := map l2norm g, visCounts := map (\<lambda>_. 1) (map l2norm g) \<rparr>"
    by (simp add: update_gradNorm_fresh)
  with update_max2DSize_Inr [OF m'] show ?thesis
    by simp
qed

lemma stats_step_accum:
  assumes "afterTrain_stats m = Inr m'" and "xysGradNorm m \<noteq> []" and "xys_grad m = Some g"
  shows "length (xysGradNorm m') = length (radii m) \<and> length (visCounts m') = length (radii m)
       \<and> length (max2DSize m') = length (radii m)
       \<and> (\<forall>i < length (radii m).
            visCounts m' ! i = (if 0 < radii m ! i then visCounts m ! i + 1 else visCounts m ! i) \<and>
            xysGradNorm m' ! i =
              (if 0 < radii m ! i then l2norm (g ! i) + xysGradNorm m ! i else xysGradNorm m ! i))"
proof -
  let ?msk = "map (\<lambda>r. 0 < r) (radii m)"
  from afterTrain_stats_Inr [OF assms(1)] assms(3) obtain m1 where
    m1: "update_gradNorm m ?msk (map l2norm g) = Inr m1" and
    m': "update_max2DSize m1 ?msk = Inr m'"
    by auto
  from update_gradNorm_Inr [OF m1 assms(2)] update_max2DSize_Inr [OF m']
  show ?thesis by simp
qed

lemma stats_run_accum:
  assumes "xysGradNorm m \<noteq> []" and "length (xysGradNorm m) = n" and "length (visCounts m) = n"
    and "max2DSize m = [] \<or> length (max2DSize m) = n"
    and "\<forall>ob \<in> set obs. obs_shape n ob" and "i < n"
  shows "\<exists>m'. stats_run m obs = Inr m'
       \<and> xysGradNorm m' ! i =
           xysGradNorm m ! i
             + sum_list (map (\<lambda>ob. grad_norm ob i) (filter (\<lambda>ob. visible_in ob i) obs))
       \<and> visCounts m' ! i =
           visCounts m ! i + of_nat (length (filter (\<lambda>ob. visible_in ob i) obs))"
  using assms
proof (induction obs arbitrary: m)
  case Nil
  then show ?case by simp
next
  case (Cons ob obs)
  let ?m0 = "observe m ob"
  from Cons.prems(5) have sh: "length (o_radii ob) = n" "length (o_grad ob) = n"
    and rest: "\<forall>ob \<in> set obs. obs_shape n ob"
    by (simp_all add: obs_shape_def)
  have "stats_shapes_ok ?m0"
    using Cons.prems(2,3,4) sh by (simp add: stats_shapes_ok_def observe_fields)
  then obtain m1 where st: "afterTrain_stats ?m0 = Inr m1"
    using afterTrain_stats_ok by blast
  have ne0: "xysGradNorm ?m0 \<noteq> []" and g0: "xys_grad ?m0 = Some (o_grad ob)"
    using Cons.prems(1) by (simp_all add: observe_fields)
  from stats_step_accum [OF st ne0 g0] sh Cons.prems(6)
  have len: "length (xysGradNorm m1) = n" "length (visCounts m1) = n" "length (max2DSize m1) = n"
    and vc: "visCounts m1 ! i = (if visible_in ob i then visCounts m ! i + 1 else visCounts m ! i)"
    and gn: "xysGradNorm m1 ! i =
              (if visible_in ob i then grad_norm ob i + xysGradNorm m ! i else xysGradNorm m ! i)"
    by (simp_all add: observe_fields visible_in_def grad_norm_def)
  from len Cons.prems(6) have ne1: "xysGradNorm m1 \<noteq> []" by auto
  from Cons.IH [OF ne1 len(1) len(2) _ rest Cons.prems(6)] len(3)
  obtain m' where run: "stats_run m1 obs = Inr m'"
    and gn': "xysGradNorm m' ! i =
           xysGradNorm m1 ! i
             + sum_list (map (\<lambda>ob. grad_norm ob i) (filter (\<lambda>ob. visible_in ob i) obs))"
    and vc': "visCounts m' ! i =
           visCounts m1 ! i + of_nat (length (filter (\<lambda>ob. visible_in ob i) obs))"
    by auto
  have "stats_run m (ob # obs) = Inr m'"
    using st run by (simp add: bind_err_def)
  with gn' vc' gn vc show ?case
    by simp
qed

text \<open>
  The updates continued past line 183, as \<open>stats_run\<close> has them. The first update stores
  the gradient magnitudes of all primitives and sets every count to 1, visible or not
  (lines 165-167); each later update adds the magnitude and 1 for the visible primitives
  only (lines 169-170). So after the steps \<open>ob0 # rest\<close>, started with empty
  statistics, \<open>xysGradNorm[i] / visCounts[i]\<close> is the magnitude of the first step plus
  those of the later steps in which \<open>i\<close> was visible, over 1 plus the number of these
  steps: the mean over exactly the visible steps when \<open>i\<close> was visible in the first
  step.
\<close>

lemma stats_run_running_mean:
  assumes "xysGradNorm m = []" and "max2DSize m = []"
    and "\<forall>ob \<in> set (ob0 # rest). obs_shape n ob" and "i < n"
  shows "\<exists>m'. stats_run m (ob0 # rest) = Inr m'
       \<and> xysGradNorm m' ! i =
           grad_norm ob0 i
             + sum_list (map (\<lambda>ob. grad_norm ob i) (filter (\<lambda>ob. visible_in ob i) rest))
       \<and> visCounts m' ! i = 1 + of_nat (length (filter (\<lambda>ob. visible_in ob i) rest))
       \<and> running_mean m' i =
           (grad_norm ob0 i
              + sum_list (map (\<lambda>ob. grad_norm ob i) (filter (\<lambda>ob. visible_in ob i) rest)))
             / (1 + of_nat (length (filter (\<lambda>ob. visible_in ob i) rest)))
       \<and> (visible_in ob0 i \<longrightarrow> running_mean m' i = mean_over_visible (ob0 # rest) i)
       \<and> ((\<forall>ob \<in> set rest. \<not> visible_in ob i) \<longrightarrow>
             visCounts m' ! i = 1 \<and> xysGradNorm m' ! i = grad_norm ob0 i)"
proof -
  let ?m0 = "observe m ob0"
  let ?S = "sum_list (map (\<lambda>ob. grad_norm ob i) (filter (\<lambda>ob. visible_in ob i) rest))"
  let ?k = "length (filter (\<lambda>ob. visible_in ob i) rest)"
  from assms(3) have sh: "length (o_radii ob0) = n" "length (o_grad ob0) = n"
    and rest: "\<forall>ob \<in> set rest. obs_shape n ob"
    by (simp_all add: obs_shape_def)
  have "stats_shapes_ok ?m0"
    using assms(1,2) by (simp add: stats_shapes_ok_def observe_fields)
  then obtain m1 where st: "afterTrain_stats ?m0 = Inr m1"
    using afterTrain_stats_ok by blast
  have e0: "xysGradNorm ?m0 = []" and g0: "xys_grad ?m0 = Some (o_grad ob0)"
    using assms(1) by (simp_all add: observe_fields)
  from stats_step_fresh [OF st e0 g0] sh
  have x1: "xysGradNorm m1 = map l2norm (o_grad ob0)"
    and v1: "visCounts m1 = map (\<lambda>_. 1) (o_grad ob0)"
    and l1: "length (max2DSize m1) = n"
    by (simp_all add: observe_fields)
  have ne1: "xysGradNorm m1 \<noteq> []" and len1: "length (xysGradNorm m1) = n" "length (visCounts m1) = n"
    using x1 v1 sh assms(4) by auto
  have xi: "xysGradNorm m1 ! i = grad_norm ob0 i" and vi: "visCounts m1 ! i = 1"
    using x1 v1 sh assms(4) by (simp_all add: grad_norm_def)
  from stats_run_accum [OF ne1 len1 _ rest assms(4)] l1
  obtain m' where run: "stats_run m1 rest = Inr m'"
    and gn: "xysGradNorm m' ! i = xysGradNorm m1 ! i + ?S"
    and vc: "visCounts m' ! i = visCounts m1 ! i + of_nat ?k"
    by auto
  have full: "stats_run m (ob0 # rest) = Inr m'"
    using st run by (simp add: bind_err_def)
  have gn': "xysGradNorm m' ! i = grad_norm ob0 i + ?S" and vc': "visCounts m' ! i = 1 + of_nat ?k"
    using gn vc xi vi by simp_all
  have rm: "running_mean m' i = (grad_norm ob0 i + ?S) / (1 + of_nat ?k)"
    by (simp add: running_mean_def gn' vc')
  have vis: "running_mean m' i = mean_over_visible (ob0 # rest) i" if "visible_in ob0 i"
    using that by (simp add: rm mean_over_visible_def add.commute)
  have never: "visCounts m' ! i = 1 \<and> xysGradNorm m' ! i = grad_norm ob0 i"
    if "\<forall>ob \<in> set rest. \<not> visible_in ob i"
  proof -
    from that have "filter (\<lambda>ob. visible_in ob i) rest = []"
      by (simp add: filter_empty_conv)
    then show ?thesis by (simp add: gn' vc')
  qed
  from full gn' vc' rm vis never show ?thesis
    by blast
qed


text \<open>
  In \<open>stats_run\<close>, a primitive culled in the first step, with gradient 0, and visible in
  the second with magnitude 1 would be held at \<open>1 / 2\<close>, its mean over the visible steps
  being 1. The process does not get there: its first call below \<open>stopSplitAt\<close> is its
  last.
\<close>

lemma stats_run_first_step_counted:
  "stats_run ex_model [ex_obs 0 0, ex_obs 2 1]
     = Inr (observe ex_model (ex_obs 2 1)
              \<lparr> xysGradNorm := [1], visCounts := [2], max2DSize := [2 / 5] \<rparr>)
   \<and> running_mean (observe ex_model (ex_obs 2 1)
              \<lparr> xysGradNorm := [1], visCounts := [2], max2DSize := [2 / 5] \<rparr>) 0 = 1 / 2
   \<and> mean_over_visible [ex_obs 0 0, ex_obs 2 1] 0 = 1"
  by (simp add: stats_eval ex_model_def running_mean_def mean_over_visible_def visible_in_def
      grad_norm_def)



section \<open>Restoring the camera's resolution\<close>




lemma forward_early_exit:
  assumes run: "forward scaleOut ext m cam s = Inr res"
    and early: "sum_list (radii (fr_model res)) = 0"
  shows "\<exists>f pargs. getDownscaleFactor m s = Inr f
       \<and> fr_calls res = [CallProject pargs]
       \<and> pa_height pargs = height (scaleOut (1 / of_int f) cam)
       \<and> pa_width pargs = width (scaleOut (1 / of_int f) cam)
       \<and> fr_cam res = scaleOut (of_int f) (scaleOut (1 / of_int f) cam)
       \<and> 0 \<le> height (fr_cam res) \<and> 0 \<le> width (fr_cam res)
       \<and> fr_image res =
           replicate (nat (height (fr_cam res)))
             (replicate (nat (width (fr_cam res))) (backgroundColor m))"
proof -
  from forward_Inr [OF run] obtain f tb where
    f: "getDownscaleFactor m s = Inr f" and
    body: "(let cam1 = scaleOut (1 / of_int f) cam;
                m1 = m\<lparr> lastHeight := height cam1, lastWidth := width cam1 \<rparr>;
                pargs = forward_project_args m1 cam1 tb;
                p = ProjectGaussians ext pargs;
                m2 = m1\<lparr> xys := p_xys p, xys_grad := None, radii := p_radii p \<rparr>;
                cam2 = scaleOut (1 / (1 / of_int f)) cam1
            in fr_cam res = cam2 \<and> fr_model res = m2 \<and>
               (if sum_list (p_radii p) = 0
                then background_image m2 cam2 = Inr (fr_image res) \<and>
                     fr_calls res = [CallProject pargs]
                else \<exists>deg rargs. degreesToUse m s = Inr deg \<and>
                     rargs = forward_raster_args m2 cam1 p
                               (map (map (\<lambda>c. max (c + 0.5) 0))
                                  (SphericalHarmonics ext deg (forward_viewDirs m2 cam1) (forward_colors m2))) \<and>
                     fr_image res = map (map (map (\<lambda>c. min c 1))) (RasterizeGaussians ext rargs) \<and>
                     fr_calls res = [CallProject pargs,
                                     CallSH deg (forward_viewDirs m2 cam1) (forward_colors m2),
                                     CallRasterize rargs]))"
    by blast
  let ?cam1 = "scaleOut (1 / of_int f) cam"
  let ?m1 = "m\<lparr> lastHeight := height ?cam1, lastWidth := width ?cam1 \<rparr>"
  let ?pargs = "forward_project_args ?m1 ?cam1 tb"
  let ?p = "ProjectGaussians ext ?pargs"
  from body have m2: "radii (fr_model res) = p_radii ?p"
    by (simp add: Let_def)
  with early have z: "sum_list (p_radii ?p) = 0" by simp
  from body z have cam: "fr_cam res = scaleOut (of_int f) ?cam1"
    and calls: "fr_calls res = [CallProject ?pargs]"
    and img: "background_image
                (?m1\<lparr> xys := p_xys ?p, xys_grad := None, radii := p_radii ?p \<rparr>)
                (scaleOut (of_int f) ?cam1) = Inr (fr_image res)"
    by (simp_all add: Let_def)
  from img cam have "0 \<le> height (fr_cam res) \<and> 0 \<le> width (fr_cam res)
       \<and> fr_image res =
           replicate (nat (height (fr_cam res)))
             (replicate (nat (width (fr_cam res))) (backgroundColor m))"
    by (auto simp: background_image_def split: if_splits)
  moreover have "pa_height ?pargs = height ?cam1" "pa_width ?pargs = width ?cam1"
    by (simp_all add: forward_project_args_def)
  ultimately show ?thesis
    using f calls cam by blast
qed


lemmas result_eval =
  size_after_def image_of_def image_size_def calls_of_def projected_size_def
  forward_def getDownscaleFactor_def Let_def tileBounds_def degreesToUse_def
  background_image_def forward_project_args_def





text \<open>
  Claim C9. On the early exit the camera is scaled back (line 102) before the shape of
  the background image is read from it (line 103): the image has the height and width
  of the camera after the call, while the projection stage was given those of the
  downscaled camera. Where the camera's method undoes the scaling exactly, these are the
  height and width from before the call.
\<close>

theorem degenerate_image_has_restored_size:
  assumes "forward scaleOut ext m cam s = Inr res"
    and "sum_list (radii (fr_model res)) = 0"
  shows "\<exists>f pargs. getDownscaleFactor m s = Inr f
       \<and> fr_calls res = [CallProject pargs]
       \<and> pa_height pargs = height (scaleOut (1 / of_int f) cam)
       \<and> pa_width pargs = width (scaleOut (1 / of_int f) cam)
       \<and> fr_cam res = scaleOut (of_int f) (scaleOut (1 / of_int f) cam)
       \<and> fr_image res =
           replicate (nat (height (fr_cam res)))
             (replicate (nat (width (fr_cam res))) (backgroundColor m))
       \<and> (restores_exactly scaleOut f cam \<longrightarrow>
            fr_image res =
              replicate (nat (height cam)) (replicate (nat (width cam)) (backgroundColor m)))"
proof -
  from forward_early_exit [OF assms] obtain f pargs where
    f: "getDownscaleFactor m s = Inr f" and
    calls: "fr_calls res = [CallProject pargs]" and
    pa: "pa_height pargs = height (scaleOut (1 / of_int f) cam)"
        "pa_width pargs = width (scaleOut (1 / of_int f) cam)" and
    cam: "fr_cam res = scaleOut (of_int f) (scaleOut (1 / of_int f) cam)" and
    img: "fr_image res =
           replicate (nat (height (fr_cam res)))
             (replicate (nat (width (fr_cam res))) (backgroundColor m))"
    by blast
  have "fr_image res =
          replicate (nat (height cam)) (replicate (nat (width cam)) (backgroundColor m))"
    if "restores_exactly scaleOut f cam"
  proof -
    from that cam have "fr_cam res = cam" by (simp add: restores_exactly_def)
    with img show ?thesis by simp
  qed
  with f calls pa cam img show ?thesis by blast
qed

text \<open>
  The example: the projection stage was given 2 x 3, the background image is 4 x 6, the
  size of the camera before the call.
\<close>

theorem degenerate_image_has_restored_size_witness:
  "sum_list (radii (fr_model (projr (forward ex_scaleOut (ex_stages 0) ex_model ex_camera 0)))) = 0
   \<and> restores_exactly ex_scaleOut 2 ex_camera
   \<and> map projected_size (calls_of (forward ex_scaleOut (ex_stages 0) ex_model ex_camera 0))
       = [Some (2, 3)]
   \<and> fr_image (projr (forward ex_scaleOut (ex_stages 0) ex_model ex_camera 0))
       = replicate (nat (height ex_camera)) (replicate (nat (width ex_camera)) (backgroundColor ex_model))
   \<and> image_size (forward ex_scaleOut (ex_stages 0) ex_model ex_camera 0) = Some (4, 6)"
proof -
  let ?e = "forward ex_scaleOut (ex_stages 0) ex_model ex_camera 0"
  have f: "getDownscaleFactor ex_model 0 = Inr 2"
    by (simp add: getDownscaleFactor_def ex_simps)
  have rt: "restores_exactly ex_scaleOut 2 ex_camera"
    by (simp add: restores_exactly_def ex_scaleOut_def ex_camera_def)
  have e: "?e = Inr (projr ?e)"
    by (simp add: result_eval ex_simps)
  have early: "sum_list (radii (fr_model (projr ?e))) = 0"
    by (simp add: result_eval ex_simps)
  have proj: "map projected_size (calls_of ?e) = [Some (2, 3)]"
    by (simp add: result_eval ex_simps)
  have size: "image_size ?e = Some (4, 6)"
    by (simp add: result_eval ex_simps numeral_eq_Suc)
  from degenerate_image_has_restored_size [OF e early] f rt
  have "fr_image (projr ?e)
       = replicate (nat (height ex_camera)) (replicate (nat (width ex_camera)) (backgroundColor ex_model))"
    by auto
  with early rt proj size show ?thesis by simp
qed

end
